theory Spec2Isabelle
  imports Main "HOL-Library.Word"
begin

unbundle bit_operations_syntax

section \<open>Register windows, devices and the event trace\<close>

text \<open>
  The two drivers of the repository, \<^verbatim>\<open>drivers/fpga/dfl-fme-error.c\<close> (FME global error
  reporting) and the AFU port error reporting file, talk to the hardware through
  \<^verbatim>\<open>readq\<close> and \<^verbatim>\<open>writeq\<close> on a register window obtained from
  \<^verbatim>\<open>dfl_get_feature_ioaddr_by_id\<close>, and serialise through \<^verbatim>\<open>pdata->lock\<close>.
  A device is modelled by its register file, and every lock operation and every
  register access is appended to a trace, so that statements such as "the status register
  is not written" or "the load happens with the lock held" are statements about the trace.
  While a callback runs, the hardware changes a register only when the driver writes one.

  The definitions keep the names of the source. The names both files use
  (\<^verbatim>\<open>clear_store\<close>, \<^verbatim>\<open>errors_show\<close>, \<^verbatim>\<open>first_error_show\<close>, \<^verbatim>\<open>revision_show\<close>)
  carry the prefix \<open>fme_\<close> or \<open>port_\<close>, and the leading underscores of
  \<^verbatim>\<open>__port_err_mask\<close>, \<^verbatim>\<open>__port_err_clear\<close>, \<^verbatim>\<open>__port_disable\<close> and
  \<^verbatim>\<open>__port_enable\<close> are dropped.
\<close>

type_synonym u8 = "8 word"
type_synonym u64 = "64 word"

datatype errno = EINVAL | EBUSY | ETIMEDOUT

datatype feature_id =
  FME_FEATURE_ID_GLOBAL_ERR | PORT_FEATURE_ID_HEADER | PORT_FEATURE_ID_ERROR

type_synonym ioaddr = "feature_id \<times> nat"

datatype event = Lock | Unlock | Readq ioaddr | Writeq ioaddr u64

record 'p device =
  regs :: "ioaddr \<Rightarrow> u64"
  revision :: "feature_id \<Rightarrow> u8"
  trace :: "event list"
  pdata :: 'p

subsection \<open>Kernel bit-field macros\<close>

text \<open>
  \<^verbatim>\<open>GENMASK_ULL(h, l)\<close>, \<^verbatim>\<open>BIT_ULL(n)\<close>, \<^verbatim>\<open>FIELD_GET\<close> and \<^verbatim>\<open>FIELD_PREP\<close> are the
  kernel's generic macros (\<^verbatim>\<open>linux/bits.h\<close>, \<^verbatim>\<open>linux/bitfield.h\<close>): a mask with bits
  \<open>l..h\<close> set, a single bit, and extraction/insertion of the field selected by a mask,
  shifted by the position of the mask's lowest set bit.
\<close>

definition GENMASK_ULL :: "nat \<Rightarrow> nat \<Rightarrow> u64" where
  "GENMASK_ULL h l = push_bit l (mask (Suc h - l))"

definition BIT_ULL :: "nat \<Rightarrow> u64" where
  "BIT_ULL n = push_bit n 1"

fun bf_shf_from :: "u64 \<Rightarrow> nat \<Rightarrow> nat \<Rightarrow> nat" where
  "bf_shf_from m n 0 = n"
| "bf_shf_from m n (Suc k) = (if bit m n then n else bf_shf_from m (Suc n) k)"

definition bf_shf :: "u64 \<Rightarrow> nat" where
  "bf_shf m = bf_shf_from m 0 64"

definition FIELD_GET :: "u64 \<Rightarrow> u64 \<Rightarrow> u64" where
  "FIELD_GET m v = drop_bit (bf_shf m) (v AND m)"

definition FIELD_PREP :: "u64 \<Rightarrow> u64 \<Rightarrow> u64" where
  "FIELD_PREP m x = push_bit (bf_shf m) x AND m"

subsection \<open>Register offsets\<close>

text \<open>Offsets of \<^verbatim>\<open>dfl-fme-error.c\<close>, relative to the FME global error feature.\<close>

definition FME_ERROR_MASK :: nat where "FME_ERROR_MASK = 0x8"
definition FME_ERROR :: nat where "FME_ERROR = 0x10"
definition MBP_ERROR :: u64 where "MBP_ERROR = BIT_ULL 6"
definition PCIE0_ERROR_MASK :: nat where "PCIE0_ERROR_MASK = 0x18"
definition PCIE0_ERROR :: nat where "PCIE0_ERROR = 0x20"
definition PCIE1_ERROR_MASK :: nat where "PCIE1_ERROR_MASK = 0x28"
definition PCIE1_ERROR :: nat where "PCIE1_ERROR = 0x30"
definition FME_FIRST_ERROR :: nat where "FME_FIRST_ERROR = 0x38"
definition FME_NEXT_ERROR :: nat where "FME_NEXT_ERROR = 0x40"
definition RAS_NONFAT_ERROR_MASK :: nat where "RAS_NONFAT_ERROR_MASK = 0x48"
definition RAS_NONFAT_ERROR :: nat where "RAS_NONFAT_ERROR = 0x50"
definition RAS_CATFAT_ERROR_MASK :: nat where "RAS_CATFAT_ERROR_MASK = 0x58"
definition RAS_CATFAT_ERROR :: nat where "RAS_CATFAT_ERROR = 0x60"
definition RAS_ERROR_INJECT :: nat where "RAS_ERROR_INJECT = 0x68"
definition INJECT_ERROR_MASK :: u64 where "INJECT_ERROR_MASK = GENMASK_ULL 2 0"

text \<open>Offsets of the port error file, relative to the port error feature.\<close>

definition PORT_ERROR_MASK :: nat where "PORT_ERROR_MASK = 0x8"
definition PORT_ERROR :: nat where "PORT_ERROR = 0x10"
definition PORT_FIRST_ERROR :: nat where "PORT_FIRST_ERROR = 0x18"
definition PORT_MALFORMED_REQ0 :: nat where "PORT_MALFORMED_REQ0 = 0x20"
definition PORT_MALFORMED_REQ1 :: nat where "PORT_MALFORMED_REQ1 = 0x28"
definition ERROR_MASK :: u64 where "ERROR_MASK = GENMASK_ULL 63 0"

subsection \<open>Register access\<close>

text \<open>
  \<^verbatim>\<open>dfl_get_feature_ioaddr_by_id(dev, id)\<close> yields the base of the feature's window;
  \<open>ioaddr_add base off\<close> is the C expression \<^verbatim>\<open>base + off\<close>.
\<close>

definition dfl_get_feature_ioaddr_by_id :: "feature_id \<Rightarrow> ioaddr" where
  "dfl_get_feature_ioaddr_by_id fid = (fid, 0)"

definition ioaddr_add :: "ioaddr \<Rightarrow> nat \<Rightarrow> ioaddr" where
  "ioaddr_add base off = (fst base, snd base + off)"

text \<open>
  Modelled from the spec: the behaviour of the hardware registers, which is no code of the
  repository. The error status registers, the first-error and the next-error registers are
  latches with write-1-to-clear semantics (a written 1 clears the bit, a written 0 leaves
  it); every other register (masks, inject, header) holds the value last written.
\<close>

definition w1c :: "ioaddr \<Rightarrow> bool" where
  "w1c a \<longleftrightarrow>
     a = (FME_FEATURE_ID_GLOBAL_ERR, FME_ERROR) \<or>
     a = (FME_FEATURE_ID_GLOBAL_ERR, PCIE0_ERROR) \<or>
     a = (FME_FEATURE_ID_GLOBAL_ERR, PCIE1_ERROR) \<or>
     a = (FME_FEATURE_ID_GLOBAL_ERR, FME_FIRST_ERROR) \<or>
     a = (FME_FEATURE_ID_GLOBAL_ERR, FME_NEXT_ERROR) \<or>
     a = (PORT_FEATURE_ID_ERROR, PORT_ERROR) \<or>
     a = (PORT_FEATURE_ID_ERROR, PORT_FIRST_ERROR)"

definition hw_write :: "ioaddr \<Rightarrow> u64 \<Rightarrow> (ioaddr \<Rightarrow> u64) \<Rightarrow> (ioaddr \<Rightarrow> u64)" where
  "hw_write a v r = r(a := (if w1c a then r a AND NOT v else v))"

definition readq :: "ioaddr \<Rightarrow> 'p device \<Rightarrow> u64 \<times> 'p device" where
  "readq a s = (regs s a, s\<lparr>trace := trace s @ [Readq a]\<rparr>)"

definition writeq :: "u64 \<Rightarrow> ioaddr \<Rightarrow> 'p device \<Rightarrow> 'p device" where
  "writeq v a s = s\<lparr>regs := hw_write a v (regs s), trace := trace s @ [Writeq a v]\<rparr>"

definition mutex_lock :: "'p device \<Rightarrow> 'p device" where
  "mutex_lock s = s\<lparr>trace := trace s @ [Lock]\<rparr>"

definition mutex_unlock :: "'p device \<Rightarrow> 'p device" where
  "mutex_unlock s = s\<lparr>trace := trace s @ [Unlock]\<rparr>"

text \<open>
  Modelled from the spec: \<^verbatim>\<open>dfl_feature_revision(base)\<close> is declared in \<^verbatim>\<open>dfl.h\<close>, which
  is not among the source files; the spec describes the revision as a property of the
  feature that never changes during the lifetime of the domain.
\<close>

definition dfl_feature_revision :: "ioaddr \<Rightarrow> 'p device \<Rightarrow> u8" where
  "dfl_feature_revision base s = revision s (fst base)"

section \<open>FME global error reporting (\<^verbatim>\<open>dfl-fme-error.c\<close>)\<close>

text \<open>
  The sysfs callbacks receive a text buffer and parse it with \<^verbatim>\<open>kstrtou64\<close> or
  \<^verbatim>\<open>kstrtou8\<close>. The buffer is represented by the outcome of that parse: \<open>None\<close> when the
  parser rejects the text, \<open>Some val\<close> when it yields \<open>val\<close>. A store callback returns
  \<^verbatim>\<open>ret ? ret : count\<close>: \<open>Inl e\<close> stands for the return value \<open>-e\<close>, \<open>Inr count\<close> for
  success (inside a callback, \<open>ret\<close> is \<open>None\<close> for 0 and \<open>Some e\<close> for \<open>-e\<close>). A show
  callback formats the value it has read with \<^verbatim>\<open>sprintf\<close>; the model returns the value.
\<close>

definition fme_revision_show :: "'p device \<Rightarrow> u8 \<times> 'p device" where
  "fme_revision_show s =
     (let base = dfl_get_feature_ioaddr_by_id FME_FEATURE_ID_GLOBAL_ERR
      in (dfl_feature_revision base s, s))"

definition pcie0_errors_show :: "'p device \<Rightarrow> u64 \<times> 'p device" where
  "pcie0_errors_show s =
     (let base = dfl_get_feature_ioaddr_by_id FME_FEATURE_ID_GLOBAL_ERR
      in readq (ioaddr_add base PCIE0_ERROR) s)"

definition pcie0_errors_store :: "u64 option \<Rightarrow> nat \<Rightarrow> 'p device \<Rightarrow> (errno + nat) \<times> 'p device" where
  "pcie0_errors_store buf count s =
     (case buf of
        None \<Rightarrow> (Inl EINVAL, s)
      | Some val \<Rightarrow>
         (let base = dfl_get_feature_ioaddr_by_id FME_FEATURE_ID_GLOBAL_ERR;
              s1 = mutex_lock s;
              s2 = writeq (GENMASK_ULL 63 0) (ioaddr_add base PCIE0_ERROR_MASK) s1;
              (v, s3) = readq (ioaddr_add base PCIE0_ERROR) s2;
              (ret, s4) = (if val = v then (None, writeq v (ioaddr_add base PCIE0_ERROR) s3)
                           else (Some EINVAL, s3));
              s5 = writeq 0 (ioaddr_add base PCIE0_ERROR_MASK) s4;
              s6 = mutex_unlock s5
          in (case ret of Some e \<Rightarrow> Inl e | None \<Rightarrow> Inr count, s6)))"

definition pcie1_errors_show :: "'p device \<Rightarrow> u64 \<times> 'p device" where
  "pcie1_errors_show s =
     (let base = dfl_get_feature_ioaddr_by_id FME_FEATURE_ID_GLOBAL_ERR
      in readq (ioaddr_add base PCIE1_ERROR) s)"

definition pcie1_errors_store :: "u64 option \<Rightarrow> nat \<Rightarrow> 'p device \<Rightarrow> (errno + nat) \<times> 'p device" where
  "pcie1_errors_store buf count s =
     (case buf of
        None \<Rightarrow> (Inl EINVAL, s)
      | Some val \<Rightarrow>
         (let base = dfl_get_feature_ioaddr_by_id FME_FEATURE_ID_GLOBAL_ERR;
              s1 = mutex_lock s;
              s2 = writeq (GENMASK_ULL 63 0) (ioaddr_add base PCIE1_ERROR_MASK) s1;
              (v, s3) = readq (ioaddr_add base PCIE1_ERROR) s2;
              (ret, s4) = (if val = v then (None, writeq v (ioaddr_add base PCIE1_ERROR) s3)
                           else (Some EINVAL, s3));
              s5 = writeq 0 (ioaddr_add base PCIE1_ERROR_MASK) s4;
              s6 = mutex_unlock s5
          in (case ret of Some e \<Rightarrow> Inl e | None \<Rightarrow> Inr count, s6)))"

definition nonfatal_errors_show :: "'p device \<Rightarrow> u64 \<times> 'p device" where
  "nonfatal_errors_show s =
     (let base = dfl_get_feature_ioaddr_by_id FME_FEATURE_ID_GLOBAL_ERR
      in readq (ioaddr_add base RAS_NONFAT_ERROR) s)"

definition catfatal_errors_show :: "'p device \<Rightarrow> u64 \<times> 'p device" where
  "catfatal_errors_show s =
     (let base = dfl_get_feature_ioaddr_by_id FME_FEATURE_ID_GLOBAL_ERR
      in readq (ioaddr_add base RAS_CATFAT_ERROR) s)"

definition inject_error_show :: "'p device \<Rightarrow> u64 \<times> 'p device" where
  "inject_error_show s =
     (let base = dfl_get_feature_ioaddr_by_id FME_FEATURE_ID_GLOBAL_ERR;
          (v, s1) = readq (ioaddr_add base RAS_ERROR_INJECT) s
      in (FIELD_GET INJECT_ERROR_MASK v, s1))"

definition inject_error_store :: "u8 option \<Rightarrow> nat \<Rightarrow> 'p device \<Rightarrow> (errno + nat) \<times> 'p device" where
  "inject_error_store buf count s =
     (case buf of
        None \<Rightarrow> (Inl EINVAL, s)
      | Some inject_error \<Rightarrow>
         if ucast inject_error AND NOT INJECT_ERROR_MASK \<noteq> 0 then (Inl EINVAL, s)
         else
          (let base = dfl_get_feature_ioaddr_by_id FME_FEATURE_ID_GLOBAL_ERR;
               s1 = mutex_lock s;
               (v, s2) = readq (ioaddr_add base RAS_ERROR_INJECT) s1;
               v1 = v AND NOT INJECT_ERROR_MASK;
               v2 = v1 OR FIELD_PREP INJECT_ERROR_MASK (ucast inject_error);
               s3 = writeq v2 (ioaddr_add base RAS_ERROR_INJECT) s2;
               s4 = mutex_unlock s3
           in (Inr count, s4)))"

definition fme_errors_show :: "'p device \<Rightarrow> u64 \<times> 'p device" where
  "fme_errors_show s =
     (let base = dfl_get_feature_ioaddr_by_id FME_FEATURE_ID_GLOBAL_ERR
      in readq (ioaddr_add base FME_ERROR) s)"

definition fme_first_error_show :: "'p device \<Rightarrow> u64 \<times> 'p device" where
  "fme_first_error_show s =
     (let base = dfl_get_feature_ioaddr_by_id FME_FEATURE_ID_GLOBAL_ERR
      in readq (ioaddr_add base FME_FIRST_ERROR) s)"

definition fme_next_error_show :: "'p device \<Rightarrow> u64 \<times> 'p device" where
  "fme_next_error_show s =
     (let base = dfl_get_feature_ioaddr_by_id FME_FEATURE_ID_GLOBAL_ERR
      in readq (ioaddr_add base FME_NEXT_ERROR) s)"

definition fme_clear_store :: "u64 option \<Rightarrow> nat \<Rightarrow> 'p device \<Rightarrow> (errno + nat) \<times> 'p device" where
  "fme_clear_store buf count s =
     (case buf of
        None \<Rightarrow> (Inl EINVAL, s)
      | Some val \<Rightarrow>
         (let base = dfl_get_feature_ioaddr_by_id FME_FEATURE_ID_GLOBAL_ERR;
              s1 = mutex_lock s;
              s2 = writeq (GENMASK_ULL 63 0) (ioaddr_add base FME_ERROR_MASK) s1;
              (v, s3) = readq (ioaddr_add base FME_ERROR) s2;
              (ret, s4) =
                (if val = v then
                   (let t1 = writeq v (ioaddr_add base FME_ERROR) s3;
                        (v1, t2) = readq (ioaddr_add base FME_FIRST_ERROR) t1;
                        t3 = writeq v1 (ioaddr_add base FME_FIRST_ERROR) t2;
                        (v2, t4) = readq (ioaddr_add base FME_NEXT_ERROR) t3;
                        t5 = writeq v2 (ioaddr_add base FME_NEXT_ERROR) t4
                    in (None, t5))
                 else (Some EINVAL, s3));
              s5 = writeq (if dfl_feature_revision base s4 \<noteq> 0 then 0 else MBP_ERROR)
                     (ioaddr_add base FME_ERROR_MASK) s4;
              s6 = mutex_unlock s5
          in (case ret of Some e \<Rightarrow> Inl e | None \<Rightarrow> Inr count, s6)))"

definition fme_error_enable :: "'p device \<Rightarrow> 'p device" where
  "fme_error_enable s =
     (let base = dfl_get_feature_ioaddr_by_id FME_FEATURE_ID_GLOBAL_ERR;
          s1 = writeq (if dfl_feature_revision base s \<noteq> 0 then 0 else MBP_ERROR)
                 (ioaddr_add base FME_ERROR_MASK) s;
          s2 = writeq 0 (ioaddr_add base PCIE0_ERROR_MASK) s1;
          s3 = writeq 0 (ioaddr_add base PCIE1_ERROR_MASK) s2;
          s4 = writeq 0 (ioaddr_add base RAS_NONFAT_ERROR_MASK) s3;
          s5 = writeq 0 (ioaddr_add base RAS_CATFAT_ERROR_MASK) s4
      in s5)"

section \<open>AFU port error reporting\<close>

text \<open>
  The port file includes \<^verbatim>\<open>dfl-afu.h\<close>, which is not among the source files. What the
  file takes from it is a parameter of the model: the offset of the port status register in
  the header window, the mask of its power state field and the value of that field in the
  AP6 state, and the two port controller functions \<^verbatim>\<open>__port_disable\<close> (which returns 0
  or a negative error code; \<open>Inr ()\<close> or \<open>Inl e\<close> here) and \<^verbatim>\<open>__port_enable\<close>. The
  controller functions may use the registers and their own data \<open>pdata\<close>.
\<close>

record 'p dfl_afu_h =
  PORT_HDR_STS :: nat
  PORT_STS_PWR_STATE :: u64
  PORT_STS_PWR_STATE_AP6 :: u64
  port_disable :: "'p device \<Rightarrow> (errno + unit) \<times> 'p device"
  port_enable :: "'p device \<Rightarrow> 'p device"

text \<open>\<^verbatim>\<open>__port_err_mask\<close>: mask or unmask port errors by the error mask register.\<close>

definition port_err_mask :: "bool \<Rightarrow> 'p device \<Rightarrow> 'p device" where
  "port_err_mask msk s =
     (let base = dfl_get_feature_ioaddr_by_id PORT_FEATURE_ID_ERROR
      in writeq (if msk then ERROR_MASK else 0) (ioaddr_add base PORT_ERROR_MASK) s)"

text \<open>\<^verbatim>\<open>__port_err_clear\<close>: clear port errors.\<close>

definition port_err_clear :: "'p dfl_afu_h \<Rightarrow> u64 \<Rightarrow> 'p device \<Rightarrow> (errno + unit) \<times> 'p device" where
  "port_err_clear h err s =
     (let base_err = dfl_get_feature_ioaddr_by_id PORT_FEATURE_ID_ERROR;
          base_hdr = dfl_get_feature_ioaddr_by_id PORT_FEATURE_ID_HEADER;
          (v, s1) = readq (ioaddr_add base_hdr (PORT_HDR_STS h)) s
      in if FIELD_GET (PORT_STS_PWR_STATE h) v = PORT_STS_PWR_STATE_AP6 h then (Inl EBUSY, s1)
         else
          (case port_disable h s1 of
             (Inl e, s2) \<Rightarrow> (Inl e, s2)
           | (Inr _, s2) \<Rightarrow>
              (let s3 = port_err_mask True s2;
                   (v, s4) = readq (ioaddr_add base_err PORT_ERROR) s3;
                   (ret, s5) =
                     (if v = err then
                        (let t1 = writeq v (ioaddr_add base_err PORT_ERROR) s4;
                             (v1, t2) = readq (ioaddr_add base_err PORT_FIRST_ERROR) t1;
                             t3 = writeq v1 (ioaddr_add base_err PORT_FIRST_ERROR) t2
                         in (Inr (), t3))
                      else (Inl EINVAL, s4));
                   s6 = port_err_mask False s5;
                   s7 = port_enable h s6
               in (ret, s7))))"

definition port_revision_show :: "'p device \<Rightarrow> u8 \<times> 'p device" where
  "port_revision_show s =
     (let base = dfl_get_feature_ioaddr_by_id PORT_FEATURE_ID_ERROR
      in (dfl_feature_revision base s, s))"

definition port_errors_show :: "'p device \<Rightarrow> u64 \<times> 'p device" where
  "port_errors_show s =
     (let base = dfl_get_feature_ioaddr_by_id PORT_FEATURE_ID_ERROR;
          s1 = mutex_lock s;
          (error, s2) = readq (ioaddr_add base PORT_ERROR) s1;
          s3 = mutex_unlock s2
      in (error, s3))"

definition port_first_error_show :: "'p device \<Rightarrow> u64 \<times> 'p device" where
  "port_first_error_show s =
     (let base = dfl_get_feature_ioaddr_by_id PORT_FEATURE_ID_ERROR;
          s1 = mutex_lock s;
          (error, s2) = readq (ioaddr_add base PORT_FIRST_ERROR) s1;
          s3 = mutex_unlock s2
      in (error, s3))"

text \<open>The callback prints \<open>req1\<close> before \<open>req0\<close>; the pair returned is \<open>(req1, req0)\<close>.\<close>

definition first_malformed_req_show :: "'p device \<Rightarrow> (u64 \<times> u64) \<times> 'p device" where
  "first_malformed_req_show s =
     (let base = dfl_get_feature_ioaddr_by_id PORT_FEATURE_ID_ERROR;
          s1 = mutex_lock s;
          (req0, s2) = readq (ioaddr_add base PORT_MALFORMED_REQ0) s1;
          (req1, s3) = readq (ioaddr_add base PORT_MALFORMED_REQ1) s2;
          s4 = mutex_unlock s3
      in ((req1, req0), s4))"

definition port_clear_store ::
  "'p dfl_afu_h \<Rightarrow> u64 option \<Rightarrow> nat \<Rightarrow> 'p device \<Rightarrow> (errno + nat) \<times> 'p device" where
  "port_clear_store h buff count s =
     (case buff of
        None \<Rightarrow> (Inl EINVAL, s)
      | Some val \<Rightarrow>
         (let s1 = mutex_lock s;
              (ret, s2) = port_err_clear h val s1;
              s3 = mutex_unlock s2
          in (case ret of Inl e \<Rightarrow> (Inl e, s3) | Inr _ \<Rightarrow> (Inr count, s3))))"

text \<open>
  \<^verbatim>\<open>port_err_init\<close> unmasks the port errors under the lock before it creates the sysfs
  group (whose outcome is not modelled).
\<close>

definition port_err_init :: "'p device \<Rightarrow> 'p device" where
  "port_err_init s =
     (let s1 = mutex_lock s;
          s2 = port_err_mask False s1;
          s3 = mutex_unlock s2
      in s3)"

section \<open>Observing a run\<close>

text \<open>
  The events a run from \<open>s\<close> to \<open>s'\<close> has appended to the trace, the register writes
  among a list of events (address and value, in program order), and whether every register
  load of a list of events happens while the lock is held (\<open>held\<close> tells whether it is held
  at the start).
\<close>

definition issued :: "'p device \<Rightarrow> 'p device \<Rightarrow> event list" where
  "issued s s' = drop (length (trace s)) (trace s')"

fun written :: "event list \<Rightarrow> (ioaddr \<times> u64) list" where
  "written [] = []"
| "written (Writeq a v # es) = (a, v) # written es"
| "written (e # es) = written es"

fun loads_locked :: "bool \<Rightarrow> event list \<Rightarrow> bool" where
  "loads_locked held [] = True"
| "loads_locked held (Lock # es) = loads_locked True es"
| "loads_locked held (Unlock # es) = loads_locked False es"
| "loads_locked held (Readq a # es) = (held \<and> loads_locked held es)"
| "loads_locked held (Writeq a v # es) = loads_locked held es"

text \<open>
  The outcome of a compare-and-clear of the register \<open>status\<close> against \<open>expected\<close>, run from
  \<open>s\<close> to \<open>s'\<close>: it succeeds exactly when the status register holds \<open>expected\<close>; then
  \<open>expected\<close> is written to the status register and the bits of \<open>expected\<close> read as 0
  afterwards; otherwise it reports the mismatch, and the status register is not written and
  keeps its value.
\<close>

definition clear_outcome :: "ioaddr \<Rightarrow> u64 \<Rightarrow> 'p device \<Rightarrow> bool \<Rightarrow> bool \<Rightarrow> 'p device \<Rightarrow> bool" where
  "clear_outcome status expected s succeeded mismatched s' \<longleftrightarrow>
     (succeeded \<longleftrightarrow> regs s status = expected) \<and>
     (if regs s status = expected
      then (status, expected) \<in> set (written (issued s s')) \<and> regs s' status AND expected = 0
      else mismatched \<and> status \<notin> fst ` set (written (issued s s')) \<and>
           regs s' status = regs s status)"

text \<open>Addresses of the registers the statements below talk about.\<close>

definition fme_reg :: "nat \<Rightarrow> ioaddr" where
  "fme_reg off = ioaddr_add (dfl_get_feature_ioaddr_by_id FME_FEATURE_ID_GLOBAL_ERR) off"

definition port_reg :: "nat \<Rightarrow> ioaddr" where
  "port_reg off = ioaddr_add (dfl_get_feature_ioaddr_by_id PORT_FEATURE_ID_ERROR) off"

definition hdr_reg :: "nat \<Rightarrow> ioaddr" where
  "hdr_reg off = ioaddr_add (dfl_get_feature_ioaddr_by_id PORT_FEATURE_ID_HEADER) off"

text \<open>
  The steady-state value of the FME error mask, as \<^verbatim>\<open>fme_error_enable\<close> and
  \<^verbatim>\<open>clear_store\<close> compute it.
\<close>

definition fme_steady_mask :: "'p device \<Rightarrow> u64" where
  "fme_steady_mask s =
     (if dfl_feature_revision (dfl_get_feature_ioaddr_by_id FME_FEATURE_ID_GLOBAL_ERR) s \<noteq> 0
      then 0 else MBP_ERROR)"

text \<open>
  The two steps of \<^verbatim>\<open>__port_err_clear\<close> that precede the masking: the power state the
  header register shows, and the outcome of the disable step (run after the header read).
\<close>

definition in_ap6 :: "'p dfl_afu_h \<Rightarrow> 'p device \<Rightarrow> bool" where
  "in_ap6 h s \<longleftrightarrow>
     FIELD_GET (PORT_STS_PWR_STATE h) (regs s (hdr_reg (PORT_HDR_STS h))) = PORT_STS_PWR_STATE_AP6 h"

definition port_quiesce :: "'p dfl_afu_h \<Rightarrow> 'p device \<Rightarrow> (errno + unit) \<times> 'p device" where
  "port_quiesce h s = port_disable h (snd (readq (hdr_reg (PORT_HDR_STS h)) s))"

text \<open>
  A controller function that leaves the registers of the port error window as they are;
  the controller functions are parameters, and what a statement needs of them is said
  by such a condition.
\<close>

definition keeps_error_window :: "('p device \<Rightarrow> 'p device) \<Rightarrow> bool" where
  "keeps_error_window f \<longleftrightarrow> (\<forall>s off. regs (f s) (port_reg off) = regs s (port_reg off))"

section \<open>The driver at rest\<close>

text \<open>
  Between two transactions every mask register holds its steady-state value: the FME error
  mask the revision-dependent value, the PCIe0, PCIe1 and RAS masks and the port error mask
  0.
\<close>

definition fme_mask_reg :: "ioaddr \<Rightarrow> bool" where
  "fme_mask_reg a \<longleftrightarrow>
     a = fme_reg FME_ERROR_MASK \<or> a = fme_reg PCIE0_ERROR_MASK \<or> a = fme_reg PCIE1_ERROR_MASK \<or>
     a = fme_reg RAS_NONFAT_ERROR_MASK \<or> a = fme_reg RAS_CATFAT_ERROR_MASK"

definition fme_steady :: "'p device \<Rightarrow> bool" where
  "fme_steady s \<longleftrightarrow>
     regs s (fme_reg FME_ERROR_MASK) = fme_steady_mask s \<and>
     regs s (fme_reg PCIE0_ERROR_MASK) = 0 \<and>
     regs s (fme_reg PCIE1_ERROR_MASK) = 0 \<and>
     regs s (fme_reg RAS_NONFAT_ERROR_MASK) = 0 \<and>
     regs s (fme_reg RAS_CATFAT_ERROR_MASK) = 0"

definition port_steady :: "'p device \<Rightarrow> bool" where
  "port_steady s \<longleftrightarrow> regs s (port_reg PORT_ERROR_MASK) = 0"

text \<open>
  The devices the FME driver reaches. \<^verbatim>\<open>fme_global_err_init\<close> calls
  \<^verbatim>\<open>fme_error_enable\<close> before it creates the sysfs groups, so every callback runs on a
  device that has been enabled; after that, callbacks run in any order, and between two
  callbacks the hardware may change any register that is not one of the five masks (an
  error latches).
\<close>

inductive fme_reachable :: "'p device \<Rightarrow> bool" where
  enable: "fme_reachable (fme_error_enable s)"
| latch: "fme_reachable s \<Longrightarrow> \<not> fme_mask_reg a \<Longrightarrow> fme_reachable (s\<lparr>regs := (regs s)(a := v)\<rparr>)"
| clear_store: "fme_reachable s \<Longrightarrow> fme_reachable (snd (fme_clear_store buf count s))"
| pcie0_errors_store: "fme_reachable s \<Longrightarrow> fme_reachable (snd (pcie0_errors_store buf count s))"
| pcie1_errors_store: "fme_reachable s \<Longrightarrow> fme_reachable (snd (pcie1_errors_store buf count s))"
| inject_error_store: "fme_reachable s \<Longrightarrow> fme_reachable (snd (inject_error_store bufi count s))"
| revision_show: "fme_reachable s \<Longrightarrow> fme_reachable (snd (fme_revision_show s))"
| errors_show: "fme_reachable s \<Longrightarrow> fme_reachable (snd (fme_errors_show s))"
| first_error_show: "fme_reachable s \<Longrightarrow> fme_reachable (snd (fme_first_error_show s))"
| next_error_show: "fme_reachable s \<Longrightarrow> fme_reachable (snd (fme_next_error_show s))"
| pcie0_errors_show: "fme_reachable s \<Longrightarrow> fme_reachable (snd (pcie0_errors_show s))"
| pcie1_errors_show: "fme_reachable s \<Longrightarrow> fme_reachable (snd (pcie1_errors_show s))"
| nonfatal_errors_show: "fme_reachable s \<Longrightarrow> fme_reachable (snd (nonfatal_errors_show s))"
| catfatal_errors_show: "fme_reachable s \<Longrightarrow> fme_reachable (snd (catfatal_errors_show s))"
| inject_error_show: "fme_reachable s \<Longrightarrow> fme_reachable (snd (inject_error_show s))"

text \<open>
  The devices the port driver reaches: \<^verbatim>\<open>port_err_init\<close> unmasks the errors before it
  creates the sysfs group; after that, callbacks run in any order, the rest of the driver
  may run the controller's disable and enable steps, and the hardware may change any
  register but the port error mask.
\<close>

inductive port_reachable :: "'p dfl_afu_h \<Rightarrow> 'p device \<Rightarrow> bool" for h :: "'p dfl_afu_h" where
  init: "port_reachable h (port_err_init s)"
| latch: "port_reachable h s \<Longrightarrow> a \<noteq> port_reg PORT_ERROR_MASK \<Longrightarrow>
     port_reachable h (s\<lparr>regs := (regs s)(a := v)\<rparr>)"
| disable: "port_reachable h s \<Longrightarrow> port_reachable h (snd (port_disable h s))"
| enable: "port_reachable h s \<Longrightarrow> port_reachable h (port_enable h s)"
| clear_store: "port_reachable h s \<Longrightarrow> port_reachable h (snd (port_clear_store h buff count s))"
| revision_show: "port_reachable h s \<Longrightarrow> port_reachable h (snd (port_revision_show s))"
| errors_show: "port_reachable h s \<Longrightarrow> port_reachable h (snd (port_errors_show s))"
| first_error_show: "port_reachable h s \<Longrightarrow> port_reachable h (snd (port_first_error_show s))"
| first_malformed_req_show:
    "port_reachable h s \<Longrightarrow> port_reachable h (snd (first_malformed_req_show s))"

section \<open>Concrete devices\<close>

text \<open>
  A port header and devices on which the callbacks are run at concrete inputs. The
  controller of \<open>sim_afu_h\<close> keeps one flag, "the port is held in reset", as its data;
  its disable step always succeeds. The controller of \<open>stuck_afu_h\<close> fails to disable
  the port. \<open>dev_with\<close> is a device whose registers are zero except for the listed ones,
  with revision 0, an empty trace and the port out of reset.
\<close>

definition sim_afu_h :: "bool dfl_afu_h" where
  "sim_afu_h =
     \<lparr>PORT_HDR_STS = 0x40, PORT_STS_PWR_STATE = GENMASK_ULL 11 8, PORT_STS_PWR_STATE_AP6 = 6,
      port_disable = (\<lambda>s. (Inr (), s\<lparr>pdata := True\<rparr>)),
      port_enable = (\<lambda>s. s\<lparr>pdata := False\<rparr>)\<rparr>"

definition stuck_afu_h :: "bool dfl_afu_h" where
  "stuck_afu_h = sim_afu_h\<lparr>port_disable := (\<lambda>s. (Inl ETIMEDOUT, s\<lparr>pdata := True\<rparr>))\<rparr>"

definition dev_with :: "(ioaddr \<times> u64) list \<Rightarrow> bool device" where
  "dev_with kvs =
     \<lparr>regs = fold (\<lambda>(a, v) r. r(a := v)) kvs (\<lambda>a. 0), revision = (\<lambda>f. 0), trace = [],
      pdata = False\<rparr>"

section \<open>Basic facts\<close>

lemmas offset_defs =
  FME_ERROR_MASK_def FME_ERROR_def PCIE0_ERROR_MASK_def PCIE0_ERROR_def
  PCIE1_ERROR_MASK_def PCIE1_ERROR_def FME_FIRST_ERROR_def FME_NEXT_ERROR_def
  RAS_NONFAT_ERROR_MASK_def RAS_NONFAT_ERROR_def RAS_CATFAT_ERROR_MASK_def
  RAS_CATFAT_ERROR_def RAS_ERROR_INJECT_def
  PORT_ERROR_MASK_def PORT_ERROR_def PORT_FIRST_ERROR_def
  PORT_MALFORMED_REQ0_def PORT_MALFORMED_REQ1_def

lemmas access_defs =
  readq_def writeq_def mutex_lock_def mutex_unlock_def hw_write_def w1c_def
  dfl_get_feature_ioaddr_by_id_def ioaddr_add_def dfl_feature_revision_def
  fme_reg_def port_reg_def hdr_reg_def

lemma GENMASK_ULL_63_0: "GENMASK_ULL 63 0 = - 1"
  by (simp add: GENMASK_ULL_def mask_eq_exp_minus_1)

lemma MBP_ERROR_eq: "MBP_ERROR = 64"
  by (simp add: MBP_ERROR_def BIT_ULL_def)

lemma INJECT_ERROR_MASK_eq: "INJECT_ERROR_MASK = mask 3"
  by (simp add: INJECT_ERROR_MASK_def GENMASK_ULL_def)

lemma INJECT_ERROR_MASK_7: "INJECT_ERROR_MASK = 7"
  by (simp add: INJECT_ERROR_MASK_eq mask_eq_exp_minus_1)

lemma bf_shf_INJECT: "bf_shf INJECT_ERROR_MASK = 0"
  by (simp add: INJECT_ERROR_MASK_7 bf_shf_def eval_nat_numeral)

lemma and_not_eq_0_iff: "(x::'a::len word) AND NOT m = 0 \<longleftrightarrow> x AND m = x"
  by (auto simp: bit_eq_iff bit_and_iff bit_not_iff)

text \<open>The range check of \<^verbatim>\<open>inject_error_store\<close> rejects exactly the values above 7.\<close>

lemma u8_out_of_range_iff:
  "(ucast (v::u8) :: u64) AND NOT INJECT_ERROR_MASK \<noteq> 0 \<longleftrightarrow> 7 < v"
proof -
  have "(ucast v :: u64) AND NOT INJECT_ERROR_MASK = 0
      \<longleftrightarrow> (ucast v :: u64) AND mask 3 = ucast v"
    by (simp only: and_not_eq_0_iff INJECT_ERROR_MASK_eq)
  also have "\<dots> \<longleftrightarrow> uint (ucast v :: u64) < 2 ^ 3"
    by (rule mask_eq_iff)
  also have "\<dots> \<longleftrightarrow> uint v < 8"
    by (simp add: uint_up_ucast is_up)
  also have "\<dots> \<longleftrightarrow> v \<le> 7"
    by (auto simp: word_le_def)
  finally show ?thesis by (simp add: not_le [symmetric] del: not_le)
qed

lemma field_prep_inject: "FIELD_PREP INJECT_ERROR_MASK x = x AND INJECT_ERROR_MASK"
  by (simp add: FIELD_PREP_def bf_shf_INJECT)

lemma u8_in_range_and: "\<not> 7 < (v::u8) \<Longrightarrow> (ucast v :: u64) AND INJECT_ERROR_MASK = ucast v"
  using u8_out_of_range_iff [of v] by (simp only: and_not_eq_0_iff simp_thms)

lemma bit_field_insert:
  "bit (((old::u64) AND NOT (mask k)) OR (x AND mask k)) n = (if n < k then bit x n else bit old n)"
  by (auto simp: bit_and_iff bit_or_iff bit_not_iff bit_mask_iff dest: bit_imp_le_length)

lemma issued_append [simp]: "issued s (s'\<lparr>trace := trace s @ evs\<rparr>) = evs"
  by (simp add: issued_def)

lemma issued_self [simp]: "issued s s = []"
  by (simp add: issued_def)

lemma sim_afu_h_simps [simp]:
  "PORT_HDR_STS sim_afu_h = 0x40"
  "PORT_STS_PWR_STATE sim_afu_h = GENMASK_ULL 11 8"
  "PORT_STS_PWR_STATE_AP6 sim_afu_h = 6"
  "port_disable sim_afu_h = (\<lambda>s. (Inr (), s\<lparr>pdata := True\<rparr>))"
  "port_enable sim_afu_h = (\<lambda>s. s\<lparr>pdata := False\<rparr>)"
  by (simp_all add: sim_afu_h_def)

lemma stuck_afu_h_simps [simp]:
  "PORT_HDR_STS stuck_afu_h = 0x40"
  "PORT_STS_PWR_STATE stuck_afu_h = GENMASK_ULL 11 8"
  "PORT_STS_PWR_STATE_AP6 stuck_afu_h = 6"
  "port_disable stuck_afu_h = (\<lambda>s. (Inl ETIMEDOUT, s\<lparr>pdata := True\<rparr>))"
  "port_enable stuck_afu_h = (\<lambda>s. s\<lparr>pdata := False\<rparr>)"
  by (simp_all add: stuck_afu_h_def sim_afu_h_def)

lemma bf_shf_pwr_state: "bf_shf (GENMASK_ULL 11 8) = 8"
  by (simp add: GENMASK_ULL_def bf_shf_def eval_nat_numeral mask_eq_exp_minus_1
      bit_numeral_word_iff)

lemma FIELD_GET_pwr_state: "FIELD_GET (GENMASK_ULL 11 8) v = drop_bit 8 (v AND 0xF00)"
  by (simp add: FIELD_GET_def bf_shf_pwr_state) (simp add: GENMASK_ULL_def mask_eq_exp_minus_1)

lemma in_ap6_sim:
  "in_ap6 sim_afu_h s \<longleftrightarrow> drop_bit 8 (regs s (hdr_reg 0x40) AND 0xF00) = 6"
  "in_ap6 stuck_afu_h s \<longleftrightarrow> drop_bit 8 (regs s (hdr_reg 0x40) AND 0xF00) = 6"
  by (simp_all add: in_ap6_def FIELD_GET_pwr_state)

lemma bit_MBP_ERROR: "bit MBP_ERROR n \<longleftrightarrow> n = 6"
  unfolding MBP_ERROR_def BIT_ULL_def bit_push_bit_iff bit_1_iff by auto

lemma MBP_ERROR_not_all_ones: "MBP_ERROR \<noteq> - 1" "MBP_ERROR \<noteq> 0"
  by (simp_all add: MBP_ERROR_eq)

lemma keeps_error_window_sim: "keeps_error_window (port_enable sim_afu_h)"
  by (simp add: keeps_error_window_def)

lemma and_mask_eq_self_iff: "(v::'a::len word) AND mask k = v \<longleftrightarrow> (\<forall>n. bit v n \<longrightarrow> n < k)"
proof
  assume eq: "v AND mask k = v"
  show "\<forall>n. bit v n \<longrightarrow> n < k"
  proof (intro allI impI)
    fix n
    assume "bit v n"
    then have "bit (v AND mask k) n"
      by (simp only: eq)
    then show "n < k"
      by (simp add: bit_and_iff bit_mask_iff)
  qed
next
  assume "\<forall>n. bit v n \<longrightarrow> n < k"
  then show "v AND mask k = v"
    by (auto simp: bit_eq_iff bit_and_iff bit_mask_iff)
qed

lemma u8_above_7_iff: "7 < (v::u8) \<longleftrightarrow> (\<exists>n. 3 \<le> n \<and> bit v n)"
proof -
  have "v \<le> 7 \<longleftrightarrow> uint v < 2 ^ 3"
    by (auto simp: word_le_def)
  also have "\<dots> \<longleftrightarrow> v AND mask 3 = v"
    by (rule mask_eq_iff [symmetric])
  also have "\<dots> \<longleftrightarrow> (\<forall>n. bit v n \<longrightarrow> n < 3)"
    by (rule and_mask_eq_self_iff)
  finally show ?thesis
    by (auto simp: not_le [symmetric] not_less simp del: not_le)
qed

lemma bit_ucast_u8: "bit (ucast (v::u8) :: u64) n = bit v n"
  by (auto simp: bit_ucast_iff dest: bit_imp_le_length)

lemma issued_append2 [simp]: "issued s (s'\<lparr>regs := r, trace := trace s @ evs\<rparr>) = evs"
  by (simp add: issued_def)

lemma fme_reg_inject [simp]: "fme_reg a = fme_reg b \<longleftrightarrow> a = b"
  by (simp add: access_defs)

lemma port_reg_inject [simp]: "port_reg a = port_reg b \<longleftrightarrow> a = b"
  by (simp add: access_defs)

lemma w1c_status [simp]:
  "w1c (fme_reg FME_ERROR)" "w1c (fme_reg PCIE0_ERROR)" "w1c (fme_reg PCIE1_ERROR)"
  "w1c (port_reg PORT_ERROR)"
  by (simp_all add: access_defs)

section \<open>What each callback does, as one equation\<close>

text \<open>
  Each store callback is a straight line of register accesses with one branch. The lemmas
  of this section give the result and the final device of each path in closed form; the
  statements about the callbacks are read off from them.
\<close>

lemma pcie0_errors_store_eq:
  "pcie0_errors_store (Some val) count s =
    (if regs s (fme_reg PCIE0_ERROR) = val
     then (Inr count,
       s\<lparr>regs := (regs s)(fme_reg PCIE0_ERROR := 0, fme_reg PCIE0_ERROR_MASK := 0),
         trace := trace s @ [Lock, Writeq (fme_reg PCIE0_ERROR_MASK) (- 1),
           Readq (fme_reg PCIE0_ERROR), Writeq (fme_reg PCIE0_ERROR) val,
           Writeq (fme_reg PCIE0_ERROR_MASK) 0, Unlock]\<rparr>)
     else (Inl EINVAL,
       s\<lparr>regs := (regs s)(fme_reg PCIE0_ERROR_MASK := 0),
         trace := trace s @ [Lock, Writeq (fme_reg PCIE0_ERROR_MASK) (- 1),
           Readq (fme_reg PCIE0_ERROR), Writeq (fme_reg PCIE0_ERROR_MASK) 0, Unlock]\<rparr>))"
  by (simp add: pcie0_errors_store_def access_defs offset_defs Let_def GENMASK_ULL_63_0)

lemma pcie1_errors_store_eq:
  "pcie1_errors_store (Some val) count s =
    (if regs s (fme_reg PCIE1_ERROR) = val
     then (Inr count,
       s\<lparr>regs := (regs s)(fme_reg PCIE1_ERROR := 0, fme_reg PCIE1_ERROR_MASK := 0),
         trace := trace s @ [Lock, Writeq (fme_reg PCIE1_ERROR_MASK) (- 1),
           Readq (fme_reg PCIE1_ERROR), Writeq (fme_reg PCIE1_ERROR) val,
           Writeq (fme_reg PCIE1_ERROR_MASK) 0, Unlock]\<rparr>)
     else (Inl EINVAL,
       s\<lparr>regs := (regs s)(fme_reg PCIE1_ERROR_MASK := 0),
         trace := trace s @ [Lock, Writeq (fme_reg PCIE1_ERROR_MASK) (- 1),
           Readq (fme_reg PCIE1_ERROR), Writeq (fme_reg PCIE1_ERROR_MASK) 0, Unlock]\<rparr>))"
  by (simp add: pcie1_errors_store_def access_defs offset_defs Let_def GENMASK_ULL_63_0)

lemma fme_clear_store_eq:
  "fme_clear_store (Some val) count s =
    (if regs s (fme_reg FME_ERROR) = val
     then (Inr count,
       s\<lparr>regs := (regs s)(fme_reg FME_ERROR := 0, fme_reg FME_FIRST_ERROR := 0,
                 fme_reg FME_NEXT_ERROR := 0, fme_reg FME_ERROR_MASK := fme_steady_mask s),
         trace := trace s @ [Lock, Writeq (fme_reg FME_ERROR_MASK) (- 1),
           Readq (fme_reg FME_ERROR), Writeq (fme_reg FME_ERROR) val,
           Readq (fme_reg FME_FIRST_ERROR),
           Writeq (fme_reg FME_FIRST_ERROR) (regs s (fme_reg FME_FIRST_ERROR)),
           Readq (fme_reg FME_NEXT_ERROR),
           Writeq (fme_reg FME_NEXT_ERROR) (regs s (fme_reg FME_NEXT_ERROR)),
           Writeq (fme_reg FME_ERROR_MASK) (fme_steady_mask s), Unlock]\<rparr>)
     else (Inl EINVAL,
       s\<lparr>regs := (regs s)(fme_reg FME_ERROR_MASK := fme_steady_mask s),
         trace := trace s @ [Lock, Writeq (fme_reg FME_ERROR_MASK) (- 1),
           Readq (fme_reg FME_ERROR),
           Writeq (fme_reg FME_ERROR_MASK) (fme_steady_mask s), Unlock]\<rparr>))"
  by (simp add: fme_clear_store_def fme_steady_mask_def access_defs offset_defs Let_def
      GENMASK_ULL_63_0)

lemma fme_error_enable_eq:
  "fme_error_enable s =
     s\<lparr>regs := (regs s)(fme_reg FME_ERROR_MASK := fme_steady_mask s,
               fme_reg PCIE0_ERROR_MASK := 0, fme_reg PCIE1_ERROR_MASK := 0,
               fme_reg RAS_NONFAT_ERROR_MASK := 0, fme_reg RAS_CATFAT_ERROR_MASK := 0),
       trace := trace s @ [Writeq (fme_reg FME_ERROR_MASK) (fme_steady_mask s),
         Writeq (fme_reg PCIE0_ERROR_MASK) 0, Writeq (fme_reg PCIE1_ERROR_MASK) 0,
         Writeq (fme_reg RAS_NONFAT_ERROR_MASK) 0, Writeq (fme_reg RAS_CATFAT_ERROR_MASK) 0]\<rparr>"
  by (simp add: fme_error_enable_def fme_steady_mask_def access_defs offset_defs Let_def)

lemma port_err_clear_eq:
  "port_err_clear h err s =
    (if in_ap6 h s then (Inl EBUSY, s\<lparr>trace := trace s @ [Readq (hdr_reg (PORT_HDR_STS h))]\<rparr>)
     else
      (case port_quiesce h s of
         (Inl e, q) \<Rightarrow> (Inl e, q)
       | (Inr u, q) \<Rightarrow>
          if regs q (port_reg PORT_ERROR) = err
          then (Inr (), port_enable h
            (q\<lparr>regs := (regs q)(port_reg PORT_ERROR := 0, port_reg PORT_FIRST_ERROR := 0,
                      port_reg PORT_ERROR_MASK := 0),
               trace := trace q @ [Writeq (port_reg PORT_ERROR_MASK) (- 1),
                 Readq (port_reg PORT_ERROR), Writeq (port_reg PORT_ERROR) err,
                 Readq (port_reg PORT_FIRST_ERROR),
                 Writeq (port_reg PORT_FIRST_ERROR) (regs q (port_reg PORT_FIRST_ERROR)),
                 Writeq (port_reg PORT_ERROR_MASK) 0]\<rparr>))
          else (Inl EINVAL, port_enable h
            (q\<lparr>regs := (regs q)(port_reg PORT_ERROR_MASK := 0),
               trace := trace q @ [Writeq (port_reg PORT_ERROR_MASK) (- 1),
                 Readq (port_reg PORT_ERROR), Writeq (port_reg PORT_ERROR_MASK) 0]\<rparr>))))"
  by (simp add: port_err_clear_def port_err_mask_def in_ap6_def port_quiesce_def ERROR_MASK_def
      access_defs offset_defs Let_def GENMASK_ULL_63_0 split: prod.splits sum.splits)

lemma inject_error_store_eq:
  "inject_error_store (Some v) count s =
    (if 7 < v then (Inl EINVAL, s)
     else (Inr count,
       s\<lparr>regs := (regs s)(fme_reg RAS_ERROR_INJECT :=
                 (regs s (fme_reg RAS_ERROR_INJECT) AND NOT INJECT_ERROR_MASK) OR ucast v),
         trace := trace s @ [Lock, Readq (fme_reg RAS_ERROR_INJECT),
           Writeq (fme_reg RAS_ERROR_INJECT)
             ((regs s (fme_reg RAS_ERROR_INJECT) AND NOT INJECT_ERROR_MASK) OR ucast v), Unlock]\<rparr>))"
  by (simp add: inject_error_store_def u8_out_of_range_iff
     field_prep_inject u8_in_range_and access_defs offset_defs Let_def)

section \<open>Masks at rest\<close>

lemma fme_steady_mask_upd [simp]:
  "fme_steady_mask (s\<lparr>regs := r\<rparr>) = fme_steady_mask s"
  "fme_steady_mask (s\<lparr>trace := tr\<rparr>) = fme_steady_mask s"
  by (simp_all add: fme_steady_mask_def dfl_feature_revision_def)

lemma store_None [simp]:
  "fme_clear_store None count s = (Inl EINVAL, s)"
  "pcie0_errors_store None count s = (Inl EINVAL, s)"
  "pcie1_errors_store None count s = (Inl EINVAL, s)"
  "inject_error_store None count s = (Inl EINVAL, s)"
  "port_clear_store h None count p = (Inl EINVAL, p)"
  by (simp_all add: fme_clear_store_def pcie0_errors_store_def pcie1_errors_store_def
      inject_error_store_def port_clear_store_def)

lemma fme_steady_enable: "fme_steady (fme_error_enable s)"
  by (simp add: fme_steady_def fme_error_enable_eq offset_defs)

lemma fme_steady_clear_store: "fme_steady s \<Longrightarrow> fme_steady (snd (fme_clear_store buf count s))"
  by (cases buf) (simp_all add: fme_clear_store_eq fme_steady_def offset_defs)

lemma fme_steady_pcie0_errors_store:
  "fme_steady s \<Longrightarrow> fme_steady (snd (pcie0_errors_store buf count s))"
  by (cases buf) (simp_all add: pcie0_errors_store_eq fme_steady_def offset_defs)

lemma fme_steady_pcie1_errors_store:
  "fme_steady s \<Longrightarrow> fme_steady (snd (pcie1_errors_store buf count s))"
  by (cases buf) (simp_all add: pcie1_errors_store_eq fme_steady_def offset_defs)

lemma fme_steady_inject_error_store:
  "fme_steady s \<Longrightarrow> fme_steady (snd (inject_error_store bufi count s))"
  by (cases bufi) (simp_all add: inject_error_store_eq fme_steady_def offset_defs)

lemma fme_steady_latch:
  "fme_steady s \<Longrightarrow> \<not> fme_mask_reg a \<Longrightarrow> fme_steady (s\<lparr>regs := (regs s)(a := v)\<rparr>)"
  by (auto simp: fme_steady_def fme_mask_reg_def)

lemma fme_steady_shows:
  "fme_steady s \<Longrightarrow> fme_steady (snd (fme_revision_show s))"
  "fme_steady s \<Longrightarrow> fme_steady (snd (fme_errors_show s))"
  "fme_steady s \<Longrightarrow> fme_steady (snd (fme_first_error_show s))"
  "fme_steady s \<Longrightarrow> fme_steady (snd (fme_next_error_show s))"
  "fme_steady s \<Longrightarrow> fme_steady (snd (pcie0_errors_show s))"
  "fme_steady s \<Longrightarrow> fme_steady (snd (pcie1_errors_show s))"
  "fme_steady s \<Longrightarrow> fme_steady (snd (nonfatal_errors_show s))"
  "fme_steady s \<Longrightarrow> fme_steady (snd (catfatal_errors_show s))"
  "fme_steady s \<Longrightarrow> fme_steady (snd (inject_error_show s))"
  by (simp_all add: fme_steady_def fme_revision_show_def fme_errors_show_def
      fme_first_error_show_def fme_next_error_show_def pcie0_errors_show_def
      pcie1_errors_show_def nonfatal_errors_show_def catfatal_errors_show_def
      inject_error_show_def readq_def Let_def)

text \<open>Every device the FME driver reaches after its initialisation has its masks at rest.\<close>

lemma fme_reachable_steady: "fme_reachable s \<Longrightarrow> fme_steady s"
  by (induction rule: fme_reachable.induct)
    (simp_all add: fme_steady_enable fme_steady_latch fme_steady_clear_store
      fme_steady_pcie0_errors_store fme_steady_pcie1_errors_store
      fme_steady_inject_error_store fme_steady_shows)

lemma port_steady_init: "port_steady (port_err_init s)"
  by (simp add: port_steady_def port_err_init_def port_err_mask_def access_defs offset_defs Let_def)

lemma port_steady_err_clear:
  assumes "keeps_error_window (\<lambda>s. snd (port_disable h s))"
    and "keeps_error_window (port_enable h)"
    and "port_steady s"
  shows "port_steady (snd (port_err_clear h err s))"
proof -
  have q: "regs (snd (port_quiesce h s)) (port_reg PORT_ERROR_MASK) = 0"
    using assms(1,3)
    by (simp add: port_quiesce_def keeps_error_window_def port_steady_def readq_def)
  show ?thesis
    using assms(2,3) q
    by (auto simp: port_err_clear_eq port_steady_def keeps_error_window_def
        split: prod.splits sum.splits)
qed

lemma port_steady_clear_store:
  assumes "keeps_error_window (\<lambda>s. snd (port_disable h s))"
    and "keeps_error_window (port_enable h)"
    and "port_steady s"
  shows "port_steady (snd (port_clear_store h buff count s))"
proof (cases buff)
  case None
  with assms(3) show ?thesis
    by simp
next
  case (Some val)
  have "port_steady (mutex_lock s)"
    using assms(3) by (simp add: port_steady_def mutex_lock_def)
  from port_steady_err_clear [OF assms(1,2) this, of val]
  show ?thesis
    using Some
    by (auto simp: port_clear_store_def port_steady_def mutex_unlock_def Let_def
        split: prod.splits sum.splits)
qed

lemma port_reachable_steady:
  assumes "keeps_error_window (\<lambda>s. snd (port_disable h s))"
    and "keeps_error_window (port_enable h)"
    and "port_reachable h s"
  shows "port_steady s"
  using assms(3)
proof (induction rule: port_reachable.induct)
  case (init s)
  show ?case by (rule port_steady_init)
next
  case (latch s a v)
  then show ?case by (simp add: port_steady_def)
next
  case (disable s)
  with assms(1) show ?case
    by (simp add: port_steady_def keeps_error_window_def)
next
  case (enable s)
  with assms(2) show ?case
    by (simp add: port_steady_def keeps_error_window_def)
next
  case (clear_store s buff count)
  then show ?case
    by (simp add: port_steady_clear_store [OF assms(1,2)])
qed (simp_all add: port_steady_def port_revision_show_def port_errors_show_def
      port_first_error_show_def first_malformed_req_show_def readq_def mutex_lock_def
      mutex_unlock_def Let_def)

lemma upd_same_iff: "(r(a := x) = r) = (r a = x)" for r :: "ioaddr \<Rightarrow> u64"
  by (auto simp: fun_upd_idem_iff)

text \<open>The registers after a store callback that has returned \<open>EINVAL\<close>.\<close>

lemma fme_clear_store_EINVAL_regs:
  "fst (fme_clear_store buf count s) = Inl EINVAL \<Longrightarrow>
   regs (snd (fme_clear_store buf count s)) =
     (case buf of None \<Rightarrow> regs s
      | Some val \<Rightarrow> (regs s)(fme_reg FME_ERROR_MASK := fme_steady_mask s))"
  by (cases buf) (simp_all add: fme_clear_store_eq split: if_splits)

lemma pcie0_errors_store_EINVAL_regs:
  "fst (pcie0_errors_store buf count s) = Inl EINVAL \<Longrightarrow>
   regs (snd (pcie0_errors_store buf count s)) =
     (case buf of None \<Rightarrow> regs s | Some val \<Rightarrow> (regs s)(fme_reg PCIE0_ERROR_MASK := 0))"
  by (cases buf) (simp_all add: pcie0_errors_store_eq split: if_splits)

lemma pcie1_errors_store_EINVAL_regs:
  "fst (pcie1_errors_store buf count s) = Inl EINVAL \<Longrightarrow>
   regs (snd (pcie1_errors_store buf count s)) =
     (case buf of None \<Rightarrow> regs s | Some val \<Rightarrow> (regs s)(fme_reg PCIE1_ERROR_MASK := 0))"
  by (cases buf) (simp_all add: pcie1_errors_store_eq split: if_splits)

lemma inject_error_store_EINVAL:
  "fst (inject_error_store bufi count s) = Inl EINVAL \<Longrightarrow>
   snd (inject_error_store bufi count s) = s"
  by (cases bufi) (simp_all add: inject_error_store_eq split: if_splits)

lemma port_err_clear_mismatch_regs:
  assumes "port_steady p"
    and "port_quiesce h p = (Inr (), q)"
    and "fst (port_err_clear h err p) = Inl EINVAL"
    and "keeps_error_window (\<lambda>s. snd (port_disable h s))"
    and "\<forall>t. regs t = regs q \<and> pdata t = pdata q \<longrightarrow> regs (port_enable h t) = regs p"
  shows "regs (snd (port_err_clear h err p)) = regs p"
proof -
  have ap6: "\<not> in_ap6 h p"
    using assms(3) by (auto simp: port_err_clear_eq)
  have ne: "regs q (port_reg PORT_ERROR) \<noteq> err"
    using assms(2,3) ap6 by (auto simp: port_err_clear_eq)
  have "regs (snd (port_quiesce h p)) (port_reg PORT_ERROR_MASK) = 0"
    using assms(1,4)
    by (simp add: port_quiesce_def keeps_error_window_def port_steady_def readq_def)
  then have mask: "(regs q)(port_reg PORT_ERROR_MASK := 0) = regs q"
    using assms(2) by (simp add: upd_same_iff)
  show ?thesis
    using ap6 ne assms(2,5) by (simp add: port_err_clear_eq mask)
qed

section \<open>The compare-and-clear transaction\<close>

text \<open>
  C1. For every domain kind (FME-Global, PCIe0, PCIe1, Port) and every 64-bit \<open>expected\<close>:
  the clear succeeds if and only if the status register it reads equals \<open>expected\<close>; on
  success \<open>expected\<close> is written to the status register, whose bits of \<open>expected\<close> read
  as 0 afterwards; otherwise the clear returns the mismatch error \<open>EINVAL\<close> and the status
  register is not written. The value read is the one the status register holds when the
  callback starts (the mask write before the read does not change it); for Port it is the
  one it holds after the AP6 check has passed and the disable step has succeeded, and the
  outcome is stated for the device handed to the enable step and, for a controller whose
  enable step leaves the error window alone, for the device returned.
\<close>

theorem clear_succeeds_iff_status_matches:
  assumes "\<not> in_ap6 h p"
    and "port_quiesce h p = (Inr (), q)"
    and "keeps_error_window (port_enable h)"
  shows "clear_outcome (fme_reg FME_ERROR) expected s
           (fst (fme_clear_store (Some expected) count s) = Inr count)
           (fst (fme_clear_store (Some expected) count s) = Inl EINVAL)
           (snd (fme_clear_store (Some expected) count s))
       \<and> clear_outcome (fme_reg PCIE0_ERROR) expected s
           (fst (pcie0_errors_store (Some expected) count s) = Inr count)
           (fst (pcie0_errors_store (Some expected) count s) = Inl EINVAL)
           (snd (pcie0_errors_store (Some expected) count s))
       \<and> clear_outcome (fme_reg PCIE1_ERROR) expected s
           (fst (pcie1_errors_store (Some expected) count s) = Inr count)
           (fst (pcie1_errors_store (Some expected) count s) = Inl EINVAL)
           (snd (pcie1_errors_store (Some expected) count s))
       \<and> (\<exists>t. snd (port_err_clear h expected p) = port_enable h t
            \<and> clear_outcome (port_reg PORT_ERROR) expected q
                (fst (port_err_clear h expected p) = Inr ())
                (fst (port_err_clear h expected p) = Inl EINVAL) t)
       \<and> (if regs q (port_reg PORT_ERROR) = expected
          then regs (snd (port_err_clear h expected p)) (port_reg PORT_ERROR) AND expected = 0
          else regs (snd (port_err_clear h expected p)) (port_reg PORT_ERROR) =
               regs q (port_reg PORT_ERROR))"
proof -
  have fme: "clear_outcome (fme_reg FME_ERROR) expected s
           (fst (fme_clear_store (Some expected) count s) = Inr count)
           (fst (fme_clear_store (Some expected) count s) = Inl EINVAL)
           (snd (fme_clear_store (Some expected) count s))"
    by (simp add: clear_outcome_def fme_clear_store_eq offset_defs)
  have p0: "clear_outcome (fme_reg PCIE0_ERROR) expected s
           (fst (pcie0_errors_store (Some expected) count s) = Inr count)
           (fst (pcie0_errors_store (Some expected) count s) = Inl EINVAL)
           (snd (pcie0_errors_store (Some expected) count s))"
    by (simp add: clear_outcome_def pcie0_errors_store_eq offset_defs)
  have p1: "clear_outcome (fme_reg PCIE1_ERROR) expected s
           (fst (pcie1_errors_store (Some expected) count s) = Inr count)
           (fst (pcie1_errors_store (Some expected) count s) = Inl EINVAL)
           (snd (pcie1_errors_store (Some expected) count s))"
    by (simp add: clear_outcome_def pcie1_errors_store_eq offset_defs)
  have port: "\<exists>t. snd (port_err_clear h expected p) = port_enable h t
            \<and> clear_outcome (port_reg PORT_ERROR) expected q
                (fst (port_err_clear h expected p) = Inr ())
                (fst (port_err_clear h expected p) = Inl EINVAL) t"
  proof (cases "regs q (port_reg PORT_ERROR) = expected")
    case True
    with assms show ?thesis
      by (simp add: port_err_clear_eq clear_outcome_def offset_defs)
        (rule exI, rule conjI, rule refl, simp add: offset_defs)
  next
    case False
    with assms show ?thesis
      by (simp add: port_err_clear_eq clear_outcome_def offset_defs)
        (rule exI, rule conjI, rule refl, simp add: offset_defs)
  qed
  have fin: "if regs q (port_reg PORT_ERROR) = expected
          then regs (snd (port_err_clear h expected p)) (port_reg PORT_ERROR) AND expected = 0
          else regs (snd (port_err_clear h expected p)) (port_reg PORT_ERROR) =
               regs q (port_reg PORT_ERROR)"
    using assms by (simp add: port_err_clear_eq keeps_error_window_def offset_defs)
  show ?thesis
    using fme p0 p1 port fin by (intro conjI)
qed

theorem clear_succeeds_iff_status_matches_witness:
  "\<not> in_ap6 sim_afu_h (dev_with [(port_reg PORT_ERROR, 5)])
   \<and> fst (port_err_clear sim_afu_h 5 (dev_with [(port_reg PORT_ERROR, 5)])) = Inr ()
   \<and> regs (snd (port_err_clear sim_afu_h 5 (dev_with [(port_reg PORT_ERROR, 5)])))
        (port_reg PORT_ERROR) AND 5 = 0
   \<and> fst (fme_clear_store (Some 5) 2 (dev_with [(fme_reg FME_ERROR, 4)])) = Inl EINVAL
   \<and> regs (snd (fme_clear_store (Some 5) 2 (dev_with [(fme_reg FME_ERROR, 4)])))
        (fme_reg FME_ERROR) = 4"
proof -
  let ?p = "dev_with [(port_reg PORT_ERROR, 5)]"
  let ?s = "dev_with [(fme_reg FME_ERROR, 4)]"
  have pwr: "\<not> in_ap6 sim_afu_h ?p"
    by (simp add: in_ap6_sim dev_with_def access_defs offset_defs)
  have dis: "port_quiesce sim_afu_h ?p = (Inr (), ?p\<lparr>trace := [Readq (hdr_reg 0x40)], pdata := True\<rparr>)"
    by (simp add: port_quiesce_def readq_def dev_with_def)
  have st: "regs ?p (port_reg PORT_ERROR) = 5" "regs ?s (fme_reg FME_ERROR) = 4"
    by (simp_all add: dev_with_def)
  note th = clear_succeeds_iff_status_matches [OF pwr dis keeps_error_window_sim, of 5 ?s 2]
  from th have fme: "clear_outcome (fme_reg FME_ERROR) 5 ?s
      (fst (fme_clear_store (Some 5) 2 ?s) = Inr 2)
      (fst (fme_clear_store (Some 5) 2 ?s) = Inl EINVAL) (snd (fme_clear_store (Some 5) 2 ?s))"
    by (rule conjunct1)
  from th obtain t where port: "clear_outcome (port_reg PORT_ERROR) 5
      (?p\<lparr>trace := [Readq (hdr_reg 0x40)], pdata := True\<rparr>)
      (fst (port_err_clear sim_afu_h 5 ?p) = Inr ())
      (fst (port_err_clear sim_afu_h 5 ?p) = Inl EINVAL) t"
    by blast
  from th have fin: "regs (snd (port_err_clear sim_afu_h 5 ?p)) (port_reg PORT_ERROR) AND 5 = 0"
    by (simp add: st)
  show ?thesis
    using pwr fme port fin by (simp add: clear_outcome_def st)
qed

text \<open>
  C2, as stated, does not hold: it says that a clear of a kind other than FME-Global
  (Port included) writes no register but its own mask and status registers. A successful
  Port clear also writes the first-error register of the port.
\<close>

theorem port_clear_writes_first_error:
  "fst (port_err_clear sim_afu_h 5
      (dev_with [(port_reg PORT_ERROR, 5), (port_reg PORT_FIRST_ERROR, 1)])) = Inr ()
   \<and> (port_reg PORT_FIRST_ERROR, 1) \<in> set (written (trace (snd (port_err_clear sim_afu_h 5
      (dev_with [(port_reg PORT_ERROR, 5), (port_reg PORT_FIRST_ERROR, 1)])))))
   \<and> port_reg PORT_FIRST_ERROR \<noteq> port_reg PORT_ERROR_MASK
   \<and> port_reg PORT_FIRST_ERROR \<noteq> port_reg PORT_ERROR"
proof -
  let ?p = "dev_with [(port_reg PORT_ERROR, 5), (port_reg PORT_FIRST_ERROR, 1)]"
  have pwr: "\<not> in_ap6 sim_afu_h ?p"
    by (simp add: in_ap6_sim dev_with_def access_defs offset_defs)
  have dis: "port_quiesce sim_afu_h ?p = (Inr (), ?p\<lparr>trace := [Readq (hdr_reg 0x40)], pdata := True\<rparr>)"
    by (simp add: port_quiesce_def readq_def dev_with_def)
  have st: "regs ?p (port_reg PORT_ERROR) = 5" "regs ?p (port_reg PORT_FIRST_ERROR) = 1"
    by (simp_all add: dev_with_def offset_defs)
  have ne: "port_reg PORT_FIRST_ERROR \<noteq> port_reg PORT_ERROR_MASK"
    "port_reg PORT_FIRST_ERROR \<noteq> port_reg PORT_ERROR"
    by (simp_all add: offset_defs)
  show ?thesis
    using pwr dis ne by (simp add: port_err_clear_eq st)
qed

text \<open>
  C2, amended. The register writes of a successful clear, in program order: the FME-Global
  kind writes its mask (all ones), its status, the first-error and the next-error register
  (each with the value just read from it) and its mask (steady state); the Port kind writes,
  between the disable and the enable step, its mask, its status, its first-error register
  (with the value just read from it) and its mask; a PCIe0 or PCIe1 clear writes its own
  mask and status registers only.
\<close>

theorem successful_clear_writes:
  assumes "\<not> in_ap6 h p"
    and "port_quiesce h p = (Inr (), q)"
  shows "written (issued s (snd (fme_clear_store (Some (regs s (fme_reg FME_ERROR))) count s))) =
           [(fme_reg FME_ERROR_MASK, GENMASK_ULL 63 0),
            (fme_reg FME_ERROR, regs s (fme_reg FME_ERROR)),
            (fme_reg FME_FIRST_ERROR, regs s (fme_reg FME_FIRST_ERROR)),
            (fme_reg FME_NEXT_ERROR, regs s (fme_reg FME_NEXT_ERROR)),
            (fme_reg FME_ERROR_MASK, fme_steady_mask s)]
       \<and> written (issued s (snd (pcie0_errors_store (Some (regs s (fme_reg PCIE0_ERROR))) count s))) =
           [(fme_reg PCIE0_ERROR_MASK, GENMASK_ULL 63 0),
            (fme_reg PCIE0_ERROR, regs s (fme_reg PCIE0_ERROR)),
            (fme_reg PCIE0_ERROR_MASK, 0)]
       \<and> written (issued s (snd (pcie1_errors_store (Some (regs s (fme_reg PCIE1_ERROR))) count s))) =
           [(fme_reg PCIE1_ERROR_MASK, GENMASK_ULL 63 0),
            (fme_reg PCIE1_ERROR, regs s (fme_reg PCIE1_ERROR)),
            (fme_reg PCIE1_ERROR_MASK, 0)]
       \<and> (\<exists>t. port_err_clear h (regs q (port_reg PORT_ERROR)) p = (Inr (), port_enable h t)
            \<and> written (issued q t) =
                [(port_reg PORT_ERROR_MASK, ERROR_MASK),
                 (port_reg PORT_ERROR, regs q (port_reg PORT_ERROR)),
                 (port_reg PORT_FIRST_ERROR, regs q (port_reg PORT_FIRST_ERROR)),
                 (port_reg PORT_ERROR_MASK, 0)])"
proof -
  have port: "\<exists>t. port_err_clear h (regs q (port_reg PORT_ERROR)) p = (Inr (), port_enable h t)
            \<and> written (issued q t) =
                [(port_reg PORT_ERROR_MASK, ERROR_MASK),
                 (port_reg PORT_ERROR, regs q (port_reg PORT_ERROR)),
                 (port_reg PORT_FIRST_ERROR, regs q (port_reg PORT_FIRST_ERROR)),
                 (port_reg PORT_ERROR_MASK, 0)]"
    using assms
    by (simp add: port_err_clear_eq)
      (rule exI, rule conjI, rule refl, simp add: ERROR_MASK_def GENMASK_ULL_63_0)
  show ?thesis
    using port
    by (simp add: fme_clear_store_eq pcie0_errors_store_eq pcie1_errors_store_eq GENMASK_ULL_63_0)
qed

theorem successful_clear_writes_witness:
  "\<not> in_ap6 sim_afu_h (dev_with [(port_reg PORT_ERROR, 5), (port_reg PORT_FIRST_ERROR, 1)])
   \<and> (\<exists>t. port_err_clear sim_afu_h 5
            (dev_with [(port_reg PORT_ERROR, 5), (port_reg PORT_FIRST_ERROR, 1)]) =
          (Inr (), port_enable sim_afu_h t)
        \<and> written (tl (trace t)) =
            [(port_reg PORT_ERROR_MASK, - 1), (port_reg PORT_ERROR, 5),
             (port_reg PORT_FIRST_ERROR, 1), (port_reg PORT_ERROR_MASK, 0)])"
proof -
  let ?p = "dev_with [(port_reg PORT_ERROR, 5), (port_reg PORT_FIRST_ERROR, 1)]"
  let ?q = "?p\<lparr>trace := [Readq (hdr_reg 0x40)], pdata := True\<rparr>"
  have pwr: "\<not> in_ap6 sim_afu_h ?p"
    by (simp add: in_ap6_sim dev_with_def access_defs offset_defs)
  have dis: "port_quiesce sim_afu_h ?p = (Inr (), ?q)"
    by (simp add: port_quiesce_def readq_def dev_with_def)
  have st: "regs ?q (port_reg PORT_ERROR) = 5" "regs ?q (port_reg PORT_FIRST_ERROR) = 1"
    by (simp_all add: dev_with_def offset_defs)
  have tl: "issued ?q t = tl (trace t)" for t :: "bool device"
    by (simp add: issued_def drop_Suc)
  show ?thesis
    using pwr successful_clear_writes [OF pwr dis, of "dev_with []" 0]
    unfolding st tl by (simp add: ERROR_MASK_def GENMASK_ULL_63_0)
qed

text \<open>
  C8. Whenever a clear fails with a mismatch, and whenever an operation fails with an
  invalid argument, every register holds the same value when the operation returns as it
  held when the operation was invoked. Both failures are the return value \<open>EINVAL\<close>. An
  invalid argument (a text the parser rejects, or an inject value above 7) returns the
  device it was given, without any access. A mismatch writes the mask register of the
  domain to all ones and then to its steady-state value, which is the value it held: the
  masks are at rest (\<open>fme_steady\<close>, \<open>port_steady\<close>) in every device the driver reaches
  after its initialisation, which the first two parts of the statement say. For Port the
  disable and the enable step run around the compare; they are parameters, and the
  statement is for a disable step that leaves the error window alone and an enable step
  that restores the registers the device had before the disable step.
\<close>

theorem failed_operation_keeps_registers:
  "(fme_reachable s \<longrightarrow> fme_steady s)
   \<and> (keeps_error_window (\<lambda>s. snd (port_disable h s)) \<and> keeps_error_window (port_enable h)
        \<and> port_reachable h p \<longrightarrow> port_steady p)
   \<and> (fme_steady s \<longrightarrow> fst (fme_clear_store buf count s) = Inl EINVAL \<longrightarrow>
      regs (snd (fme_clear_store buf count s)) = regs s)
   \<and> (fme_steady s \<longrightarrow> fst (pcie0_errors_store buf count s) = Inl EINVAL \<longrightarrow>
      regs (snd (pcie0_errors_store buf count s)) = regs s)
   \<and> (fme_steady s \<longrightarrow> fst (pcie1_errors_store buf count s) = Inl EINVAL \<longrightarrow>
      regs (snd (pcie1_errors_store buf count s)) = regs s)
   \<and> (fst (inject_error_store bufi count s) = Inl EINVAL \<longrightarrow>
      snd (inject_error_store bufi count s) = s)
   \<and> (7 < v \<longrightarrow> inject_error_store (Some v) count s = (Inl EINVAL, s))
   \<and> fme_clear_store None count s = (Inl EINVAL, s)
   \<and> pcie0_errors_store None count s = (Inl EINVAL, s)
   \<and> pcie1_errors_store None count s = (Inl EINVAL, s)
   \<and> inject_error_store None count s = (Inl EINVAL, s)
   \<and> port_clear_store h None count p = (Inl EINVAL, p)
   \<and> (port_steady p \<and> port_quiesce h p = (Inr (), q)
        \<and> fst (port_err_clear h err p) = Inl EINVAL
        \<and> keeps_error_window (\<lambda>s. snd (port_disable h s))
        \<and> (\<forall>t. regs t = regs q \<and> pdata t = pdata q \<longrightarrow> regs (port_enable h t) = regs p)
      \<longrightarrow> regs (snd (port_err_clear h err p)) = regs p)"
proof -
  have fme: "regs (snd (fme_clear_store buf count s)) = regs s"
    if "fme_steady s" "fst (fme_clear_store buf count s) = Inl EINVAL"
    using that fme_clear_store_EINVAL_regs [OF that(2)]
    by (cases buf) (simp_all add: fme_steady_def upd_same_iff)
  have p0: "regs (snd (pcie0_errors_store buf count s)) = regs s"
    if "fme_steady s" "fst (pcie0_errors_store buf count s) = Inl EINVAL"
    using that pcie0_errors_store_EINVAL_regs [OF that(2)]
    by (cases buf) (simp_all add: fme_steady_def upd_same_iff)
  have p1: "regs (snd (pcie1_errors_store buf count s)) = regs s"
    if "fme_steady s" "fst (pcie1_errors_store buf count s) = Inl EINVAL"
    using that pcie1_errors_store_EINVAL_regs [OF that(2)]
    by (cases buf) (simp_all add: fme_steady_def upd_same_iff)
  have inj: "inject_error_store (Some v) count s = (Inl EINVAL, s)" if "7 < v"
    using that by (simp add: inject_error_store_eq)
  show ?thesis
    using fme p0 p1 inj inject_error_store_EINVAL [of bufi count s]
      port_err_clear_mismatch_regs [of p h q err]
      fme_reachable_steady [of s] port_reachable_steady [of h p]
    by simp
qed

theorem failed_operation_keeps_registers_witness:
  "fme_reachable (fme_error_enable (dev_with [(fme_reg FME_ERROR, 4)]))
   \<and> fme_steady (fme_error_enable (dev_with [(fme_reg FME_ERROR, 4)]))
   \<and> fst (fme_clear_store (Some 5) 1 (fme_error_enable (dev_with [(fme_reg FME_ERROR, 4)]))) =
       Inl EINVAL
   \<and> regs (snd (fme_clear_store (Some 5) 1 (fme_error_enable (dev_with [(fme_reg FME_ERROR, 4)])))) =
       regs (fme_error_enable (dev_with [(fme_reg FME_ERROR, 4)]))
   \<and> fst (pcie0_errors_store (Some 5) 1 (fme_error_enable (dev_with [(fme_reg FME_ERROR, 4)]))) =
       Inl EINVAL
   \<and> regs (snd (pcie0_errors_store (Some 5) 1
         (fme_error_enable (dev_with [(fme_reg FME_ERROR, 4)])))) =
       regs (fme_error_enable (dev_with [(fme_reg FME_ERROR, 4)]))
   \<and> fst (pcie1_errors_store None 1 (fme_error_enable (dev_with [(fme_reg FME_ERROR, 4)]))) =
       Inl EINVAL
   \<and> regs (snd (pcie1_errors_store None 1
         (fme_error_enable (dev_with [(fme_reg FME_ERROR, 4)])))) =
       regs (fme_error_enable (dev_with [(fme_reg FME_ERROR, 4)]))
   \<and> (7::u8) < 8
   \<and> snd (inject_error_store (Some 8) 1 (fme_error_enable (dev_with [(fme_reg FME_ERROR, 4)]))) =
       fme_error_enable (dev_with [(fme_reg FME_ERROR, 4)])
   \<and> port_reachable sim_afu_h (port_err_init (dev_with [(port_reg PORT_ERROR, 5)]))
   \<and> port_steady (port_err_init (dev_with [(port_reg PORT_ERROR, 5)]))
   \<and> fst (port_err_clear sim_afu_h 4 (port_err_init (dev_with [(port_reg PORT_ERROR, 5)]))) =
       Inl EINVAL
   \<and> regs (snd (port_err_clear sim_afu_h 4 (port_err_init (dev_with [(port_reg PORT_ERROR, 5)])))) =
       regs (port_err_init (dev_with [(port_reg PORT_ERROR, 5)]))"
proof -
  let ?s = "fme_error_enable (dev_with [(fme_reg FME_ERROR, 4)])"
  let ?p = "port_err_init (dev_with [(port_reg PORT_ERROR, 5)])"
  let ?q = "?p\<lparr>trace := trace ?p @ [Readq (hdr_reg 0x40)], pdata := True\<rparr>"
  have reach: "fme_reachable ?s"
    by (rule fme_reachable.enable)
  have preach: "port_reachable sim_afu_h ?p"
    by (rule port_reachable.init)
  have st: "regs ?s (fme_reg FME_ERROR) = 4" "regs ?s (fme_reg PCIE0_ERROR) = 0"
    by (simp_all add: fme_error_enable_eq dev_with_def offset_defs)
  have r1: "fst (fme_clear_store (Some 5) 1 ?s) = Inl EINVAL"
    by (simp add: fme_clear_store_eq st)
  have r2: "fst (pcie0_errors_store (Some 5) 1 ?s) = Inl EINVAL"
    by (simp add: pcie0_errors_store_eq st)
  have r3: "fst (pcie1_errors_store None 1 ?s) = Inl EINVAL"
    by simp
  have r4: "fst (inject_error_store (Some 8) 1 ?s) = Inl EINVAL"
    by (simp add: inject_error_store_eq)
  have pst: "regs ?p (port_reg PORT_ERROR) = 5" "regs ?p (hdr_reg 0x40) = 0"
    by (simp_all add: port_err_init_def port_err_mask_def dev_with_def access_defs offset_defs
        Let_def)
  have pwr: "\<not> in_ap6 sim_afu_h ?p"
    by (simp add: in_ap6_sim pst)
  have dis: "port_quiesce sim_afu_h ?p = (Inr (), ?q)"
    by (simp add: port_quiesce_def readq_def)
  have r5: "fst (port_err_clear sim_afu_h 4 ?p) = Inl EINVAL"
    using pwr dis by (simp add: port_err_clear_eq pst)
  have kew: "keeps_error_window (\<lambda>s. snd (port_disable sim_afu_h s))"
    by (simp add: keeps_error_window_def)
  have rt: "\<forall>t. regs t = regs ?q \<and> pdata t = pdata ?q \<longrightarrow>
      regs (port_enable sim_afu_h t) = regs ?p"
    by simp
  note th = failed_operation_keeps_registers
    [where s = ?s and buf = "Some 5" and count = 1 and bufi = "Some 8" and v = 8
       and h = sim_afu_h and p = ?p and q = ?q and err = 4]
  note th0 = failed_operation_keeps_registers
    [where s = ?s and buf = None and count = 1 and bufi = "Some 8" and v = 8
       and h = sim_afu_h and p = ?p and q = ?q and err = 4]
  from th reach have steady: "fme_steady ?s"
    by blast
  from th kew keeps_error_window_sim preach have psteady: "port_steady ?p"
    by blast
  from th steady r1 have c1: "regs (snd (fme_clear_store (Some 5) 1 ?s)) = regs ?s"
    by blast
  from th steady r2 have c2: "regs (snd (pcie0_errors_store (Some 5) 1 ?s)) = regs ?s"
    by blast
  from th0 steady r3 have c3: "regs (snd (pcie1_errors_store None 1 ?s)) = regs ?s"
    by blast
  from th r4 have c4: "snd (inject_error_store (Some 8) 1 ?s) = ?s"
    by blast
  from th psteady dis r5 kew rt
  have c5: "regs (snd (port_err_clear sim_afu_h 4 ?p)) = regs ?p"
    by blast
  have v: "(7::u8) < 8"
    by simp
  show ?thesis
    using reach steady r1 c1 r2 c2 r3 c3 v c4 preach psteady r5 c5 by (intro conjI)
qed

section \<open>The port clear: power gating and the disable step\<close>

text \<open>
  C5. For the Port domain and every input value: if the power state field of the port header
  register reads AP6, the clear returns the busy error and performs no register write at
  all; the only access is the load of the header register, and the registers and the
  controller's data are the same after the call as before it.
\<close>

theorem port_err_clear_ap6_no_write:
  assumes "in_ap6 h s"
  shows "port_err_clear h err s =
           (Inl EBUSY, s\<lparr>trace := trace s @ [Readq (hdr_reg (PORT_HDR_STS h))]\<rparr>)
       \<and> written (issued s (snd (port_err_clear h err s))) = []
       \<and> regs (snd (port_err_clear h err s)) = regs s
       \<and> pdata (snd (port_err_clear h err s)) = pdata s
       \<and> fst (port_clear_store h (Some err) count s) = Inl EBUSY
       \<and> written (issued s (snd (port_clear_store h (Some err) count s))) = []
       \<and> regs (snd (port_clear_store h (Some err) count s)) = regs s"
proof -
  have ap6: "in_ap6 h (mutex_lock s)"
    using assms by (simp add: in_ap6_def mutex_lock_def)
  show ?thesis
    using assms ap6
    by (simp add: port_err_clear_eq port_clear_store_def Let_def mutex_lock_def
        mutex_unlock_def issued_def)
qed

theorem port_err_clear_ap6_no_write_witness:
  "in_ap6 sim_afu_h (dev_with [(hdr_reg 0x40, 0x600), (port_reg PORT_ERROR, 5)])
   \<and> port_err_clear sim_afu_h 5 (dev_with [(hdr_reg 0x40, 0x600), (port_reg PORT_ERROR, 5)]) =
       (Inl EBUSY, (dev_with [(hdr_reg 0x40, 0x600), (port_reg PORT_ERROR, 5)])
           \<lparr>trace := [Readq (hdr_reg 0x40)]\<rparr>)
   \<and> regs (snd (port_err_clear sim_afu_h 5
         (dev_with [(hdr_reg 0x40, 0x600), (port_reg PORT_ERROR, 5)]))) (port_reg PORT_ERROR) = 5"
proof -
  have ap6: "in_ap6 sim_afu_h (dev_with [(hdr_reg 0x40, 0x600), (port_reg PORT_ERROR, 5)])"
    by (simp add: in_ap6_sim dev_with_def access_defs offset_defs)
  show ?thesis
    using ap6 port_err_clear_ap6_no_write [OF ap6, of 5 0]
    by (simp add: dev_with_def access_defs offset_defs)
qed



text \<open>
  C4, as stated, does not hold for every input: when the disable step fails, the clear
  returns its error before the enable step, and the port is as the disable step has left
  it. With the controller of \<open>stuck_afu_h\<close>, whose failing disable step leaves the port
  held in reset, the clear returns with the port in reset.
\<close>

theorem failed_disable_returns_in_reset:
  "\<not> in_ap6 stuck_afu_h (dev_with [(port_reg PORT_ERROR, 5)])
   \<and> \<not> pdata (dev_with [(port_reg PORT_ERROR, 5)])
   \<and> fst (port_err_clear stuck_afu_h 5 (dev_with [(port_reg PORT_ERROR, 5)])) = Inl ETIMEDOUT
   \<and> pdata (snd (port_err_clear stuck_afu_h 5 (dev_with [(port_reg PORT_ERROR, 5)])))
   \<and> (\<forall>t. snd (port_err_clear stuck_afu_h 5 (dev_with [(port_reg PORT_ERROR, 5)])) \<noteq>
          port_enable stuck_afu_h t)"
proof -
  let ?p = "dev_with [(port_reg PORT_ERROR, 5)]"
  have pwr: "\<not> in_ap6 stuck_afu_h ?p"
    by (simp add: in_ap6_sim dev_with_def access_defs offset_defs)
  have dis: "port_quiesce stuck_afu_h ?p =
      (Inl ETIMEDOUT, ?p\<lparr>trace := [Readq (hdr_reg 0x40)], pdata := True\<rparr>)"
    by (simp add: port_quiesce_def readq_def dev_with_def)
  have res: "port_err_clear stuck_afu_h 5 ?p =
      (Inl ETIMEDOUT, ?p\<lparr>trace := [Readq (hdr_reg 0x40)], pdata := True\<rparr>)"
    using pwr dis by (simp add: port_err_clear_eq)
  have ne: "?p\<lparr>trace := [Readq (hdr_reg 0x40)], pdata := True\<rparr> \<noteq> port_enable stuck_afu_h t" for t
  proof
    assume "?p\<lparr>trace := [Readq (hdr_reg 0x40)], pdata := True\<rparr> = port_enable stuck_afu_h t"
    then have "pdata (?p\<lparr>trace := [Readq (hdr_reg 0x40)], pdata := True\<rparr>) =
        pdata (port_enable stuck_afu_h t)"
      by (rule arg_cong)
    then show False by simp
  qed
  have p0: "\<not> pdata ?p"
    by (simp add: dev_with_def)
  show ?thesis
    using pwr p0 ne by (simp add: res)
qed

text \<open>
  C4, amended. For the Port domain and every input value: once the AP6 check has passed and
  the port has been quiesced (the disable step has succeeded), the enable step is the last
  step of the clear, on the success path and on the mismatch path alike; so the port is in
  the enabled state when such a clear returns, whatever state the enable step establishes
  being called \<open>enabled\<close>.
\<close>

theorem port_err_clear_reenables:
  assumes "\<not> in_ap6 h s"
    and "port_quiesce h s = (Inr (), q)"
    and "\<And>t. enabled (port_enable h t)"
  shows "enabled (snd (port_err_clear h err s))
       \<and> (\<exists>t. port_err_clear h err s =
             (if regs q (port_reg PORT_ERROR) = err then Inr () else Inl EINVAL, port_enable h t))"
  using assms by (auto simp: port_err_clear_eq)

theorem port_err_clear_reenables_witness:
  "\<not> in_ap6 sim_afu_h (dev_with [(port_reg PORT_ERROR, 5)])
   \<and> fst (port_err_clear sim_afu_h 5 (dev_with [(port_reg PORT_ERROR, 5)])) = Inr ()
   \<and> \<not> pdata (snd (port_err_clear sim_afu_h 5 (dev_with [(port_reg PORT_ERROR, 5)])))
   \<and> fst (port_err_clear sim_afu_h 4 (dev_with [(port_reg PORT_ERROR, 5)])) = Inl EINVAL
   \<and> \<not> pdata (snd (port_err_clear sim_afu_h 4 (dev_with [(port_reg PORT_ERROR, 5)])))"
proof -
  let ?s = "dev_with [(port_reg PORT_ERROR, 5)]"
  have pwr: "\<not> in_ap6 sim_afu_h ?s"
    by (simp add: in_ap6_sim dev_with_def access_defs offset_defs)
  have dis: "port_quiesce sim_afu_h ?s = (Inr (), ?s\<lparr>trace := [Readq (hdr_reg 0x40)], pdata := True\<rparr>)"
    by (simp add: port_quiesce_def readq_def dev_with_def)
  have en: "\<And>t. (\<lambda>d. \<not> pdata d) (port_enable sim_afu_h t)"
    by simp
  have st: "regs ?s (port_reg PORT_ERROR) = 5"
    by (simp add: dev_with_def)
  show ?thesis
    using pwr port_err_clear_reenables [where enabled = "\<lambda>d. \<not> pdata d", OF pwr dis en, of 5]
      port_err_clear_reenables [where enabled = "\<lambda>d. \<not> pdata d", OF pwr dis en, of 4]
    by (auto simp: st)
qed

section \<open>Steady-state masks\<close>

text \<open>
  C3. When a clear returns with success or with a mismatch, the mask register of the
  domain holds its steady-state value and not the all-ones value of the transaction: 0 for
  PCIe0, PCIe1 and Port, and for FME-Global 0 unless the revision is 0, in which case
  exactly the MBP error bit (bit 6) is set. For Port the clear is one whose AP6 check has
  passed and whose disable step has succeeded, run with a controller whose enable step
  leaves the error window alone.
\<close>

theorem clear_leaves_mask_steady:
  assumes "\<not> in_ap6 h p"
    and "port_quiesce h p = (Inr (), q)"
    and "keeps_error_window (port_enable h)"
  shows "regs (snd (fme_clear_store (Some val) count s)) (fme_reg FME_ERROR_MASK) =
           (if revision s FME_FEATURE_ID_GLOBAL_ERR = 0 then MBP_ERROR else 0)
       \<and> regs (snd (pcie0_errors_store (Some val) count s)) (fme_reg PCIE0_ERROR_MASK) = 0
       \<and> regs (snd (pcie1_errors_store (Some val) count s)) (fme_reg PCIE1_ERROR_MASK) = 0
       \<and> regs (snd (port_err_clear h err p)) (port_reg PORT_ERROR_MASK) = 0
       \<and> (\<forall>n. bit MBP_ERROR n \<longleftrightarrow> n = 6)
       \<and> MBP_ERROR \<noteq> GENMASK_ULL 63 0 \<and> 0 \<noteq> GENMASK_ULL 63 0"
proof -
  have fme: "regs (snd (fme_clear_store (Some val) count s)) (fme_reg FME_ERROR_MASK) =
           (if revision s FME_FEATURE_ID_GLOBAL_ERR = 0 then MBP_ERROR else 0)"
    by (simp add: fme_clear_store_eq fme_steady_mask_def dfl_feature_revision_def
        dfl_get_feature_ioaddr_by_id_def)
  have p0: "regs (snd (pcie0_errors_store (Some val) count s)) (fme_reg PCIE0_ERROR_MASK) = 0"
    by (simp add: pcie0_errors_store_eq)
  have p1: "regs (snd (pcie1_errors_store (Some val) count s)) (fme_reg PCIE1_ERROR_MASK) = 0"
    by (simp add: pcie1_errors_store_eq)
  have port: "regs (snd (port_err_clear h err p)) (port_reg PORT_ERROR_MASK) = 0"
    using assms by (simp add: port_err_clear_eq keeps_error_window_def)
  show ?thesis
    using fme p0 p1 port bit_MBP_ERROR MBP_ERROR_not_all_ones
    by (simp only: GENMASK_ULL_63_0) simp
qed

theorem clear_leaves_mask_steady_witness:
  "\<not> in_ap6 sim_afu_h (dev_with [(port_reg PORT_ERROR, 5), (port_reg PORT_ERROR_MASK, 3)])
   \<and> fst (port_err_clear sim_afu_h 4
         (dev_with [(port_reg PORT_ERROR, 5), (port_reg PORT_ERROR_MASK, 3)])) = Inl EINVAL
   \<and> regs (snd (port_err_clear sim_afu_h 4
         (dev_with [(port_reg PORT_ERROR, 5), (port_reg PORT_ERROR_MASK, 3)])))
       (port_reg PORT_ERROR_MASK) = 0
   \<and> regs (snd (fme_clear_store (Some 4) 2 (dev_with [(fme_reg FME_ERROR, 5)])))
       (fme_reg FME_ERROR_MASK) = 64"
proof -
  let ?p = "dev_with [(port_reg PORT_ERROR, 5), (port_reg PORT_ERROR_MASK, 3)]"
  have pwr: "\<not> in_ap6 sim_afu_h ?p"
    by (simp add: in_ap6_sim dev_with_def access_defs offset_defs)
  have dis: "port_quiesce sim_afu_h ?p = (Inr (), ?p\<lparr>trace := [Readq (hdr_reg 0x40)], pdata := True\<rparr>)"
    by (simp add: port_quiesce_def readq_def dev_with_def)
  have ret: "fst (port_err_clear sim_afu_h 4 ?p) = Inl EINVAL"
    using pwr dis by (simp add: port_err_clear_eq dev_with_def access_defs offset_defs)
  have rev: "revision (dev_with [(fme_reg FME_ERROR, 5)]) FME_FEATURE_ID_GLOBAL_ERR = 0"
    by (simp add: dev_with_def)
  show ?thesis
    using pwr ret
      clear_leaves_mask_steady [OF pwr dis keeps_error_window_sim,
        of 4 2 "dev_with [(fme_reg FME_ERROR, 5)]" 4]
    by (simp add: rev MBP_ERROR_eq)
qed

text \<open>
  C6. Enabling the FME global error feature writes the steady-state masks: the PCIe0,
  PCIe1, RAS non-fatal and RAS catastrophic/fatal masks become 0, and the FME error mask
  becomes 0 when the revision is not 0 and exactly the MBP error bit (bit 6) when it is 0.
  A clear of the FME-Global kind, then or later, writes the same revision-dependent value
  to the FME error mask before it returns; neither callback changes the revision.
\<close>

theorem fme_error_enable_steady_masks:
  "regs (fme_error_enable s) (fme_reg PCIE0_ERROR_MASK) = 0
   \<and> regs (fme_error_enable s) (fme_reg PCIE1_ERROR_MASK) = 0
   \<and> regs (fme_error_enable s) (fme_reg RAS_NONFAT_ERROR_MASK) = 0
   \<and> regs (fme_error_enable s) (fme_reg RAS_CATFAT_ERROR_MASK) = 0
   \<and> regs (fme_error_enable s) (fme_reg FME_ERROR_MASK) =
       (if revision s FME_FEATURE_ID_GLOBAL_ERR = 0 then MBP_ERROR else 0)
   \<and> (\<forall>n. bit MBP_ERROR n \<longleftrightarrow> n = 6)
   \<and> regs (snd (fme_clear_store (Some val) count (fme_error_enable s))) (fme_reg FME_ERROR_MASK) =
       regs (fme_error_enable s) (fme_reg FME_ERROR_MASK)
   \<and> regs (snd (fme_clear_store (Some val) count t)) (fme_reg FME_ERROR_MASK) =
       (if revision t FME_FEATURE_ID_GLOBAL_ERR = 0 then MBP_ERROR else 0)
   \<and> revision (fme_error_enable s) = revision s
   \<and> revision (snd (fme_clear_store (Some val) count t)) = revision t"
  by (simp add: fme_clear_store_eq fme_error_enable_eq fme_steady_mask_def bit_MBP_ERROR
      access_defs offset_defs)

section \<open>Fault injection\<close>

text \<open>
  C7. For every 8-bit value \<open>v\<close> written to the fault injection register: if \<open>v\<close> has a
  bit set above its low 3 bits (that is, \<open>v > 7\<close>), the callback returns the invalid
  argument error and the device is the one it was given, without any access; otherwise the
  callback reads the inject register and writes it back with its low 3 bits replaced by
  \<open>v\<close> and every other bit as read, and no other register changes.
\<close>

theorem inject_error_store_low_bits:
  "(7 < v \<longleftrightarrow> (\<exists>n. 3 \<le> n \<and> bit v n))
   \<and> inject_error_store (Some v) count s =
       (if 7 < v then (Inl EINVAL, s)
        else (Inr count,
          s\<lparr>regs := (regs s)(fme_reg RAS_ERROR_INJECT :=
                 (regs s (fme_reg RAS_ERROR_INJECT) AND NOT INJECT_ERROR_MASK) OR ucast v),
            trace := trace s @ [Lock, Readq (fme_reg RAS_ERROR_INJECT),
              Writeq (fme_reg RAS_ERROR_INJECT)
                ((regs s (fme_reg RAS_ERROR_INJECT) AND NOT INJECT_ERROR_MASK) OR ucast v),
              Unlock]\<rparr>))
   \<and> (if 7 < v then True
      else (\<forall>n. bit ((regs s (fme_reg RAS_ERROR_INJECT) AND NOT INJECT_ERROR_MASK) OR ucast v) n =
              (if n < 3 then bit v n else bit (regs s (fme_reg RAS_ERROR_INJECT)) n)))"
proof -
  have bits: "bit ((old AND NOT INJECT_ERROR_MASK) OR ucast v) n =
      (if n < 3 then bit v n else bit old n)" if "\<not> 7 < v" for old :: u64 and n
  proof -
    have "(old AND NOT INJECT_ERROR_MASK) OR ucast v =
        (old AND NOT (mask 3)) OR (ucast v AND mask 3)"
      using u8_in_range_and [OF that] by (simp add: INJECT_ERROR_MASK_eq)
    then show ?thesis
      by (simp only: bit_field_insert bit_ucast_u8)
  qed
  show ?thesis
    using bits by (simp add: inject_error_store_eq u8_above_7_iff [symmetric])
qed

section \<open>Locking of the show callbacks\<close>

text \<open>
  C9, as stated, does not hold: it says that every exposed single-register read takes the
  lock for its load. The show callbacks of the FME file load the register without taking
  the lock.
\<close>

theorem fme_errors_show_unlocked:
  "trace (snd (fme_errors_show (dev_with []))) = [Readq (fme_reg FME_ERROR)]
   \<and> \<not> loads_locked False (issued (dev_with []) (snd (fme_errors_show (dev_with []))))"
  by (simp add: fme_errors_show_def readq_def fme_reg_def issued_def dev_with_def)

text \<open>
  C9, amended. The show callbacks of the Port domain (errors, first error, first malformed
  request) take the lock, load, and release the lock; the show callbacks of the FME file
  (errors, first error, next error, PCIe0, PCIe1, non-fatal, catastrophic/fatal, inject)
  issue their single load without taking the lock; the store callbacks of the FME file hold
  the lock during their loads.
\<close>

theorem show_callbacks_locking:
  "issued s (snd (port_errors_show s)) = [Lock, Readq (port_reg PORT_ERROR), Unlock]
   \<and> issued s (snd (port_first_error_show s)) = [Lock, Readq (port_reg PORT_FIRST_ERROR), Unlock]
   \<and> issued s (snd (first_malformed_req_show s)) =
       [Lock, Readq (port_reg PORT_MALFORMED_REQ0), Readq (port_reg PORT_MALFORMED_REQ1), Unlock]
   \<and> loads_locked False (issued s (snd (port_errors_show s)))
   \<and> loads_locked False (issued s (snd (port_first_error_show s)))
   \<and> loads_locked False (issued s (snd (first_malformed_req_show s)))
   \<and> issued s (snd (fme_errors_show s)) = [Readq (fme_reg FME_ERROR)]
   \<and> issued s (snd (fme_first_error_show s)) = [Readq (fme_reg FME_FIRST_ERROR)]
   \<and> issued s (snd (fme_next_error_show s)) = [Readq (fme_reg FME_NEXT_ERROR)]
   \<and> issued s (snd (pcie0_errors_show s)) = [Readq (fme_reg PCIE0_ERROR)]
   \<and> issued s (snd (pcie1_errors_show s)) = [Readq (fme_reg PCIE1_ERROR)]
   \<and> issued s (snd (nonfatal_errors_show s)) = [Readq (fme_reg RAS_NONFAT_ERROR)]
   \<and> issued s (snd (catfatal_errors_show s)) = [Readq (fme_reg RAS_CATFAT_ERROR)]
   \<and> issued s (snd (inject_error_show s)) = [Readq (fme_reg RAS_ERROR_INJECT)]
   \<and> \<not> loads_locked False [Readq a]
   \<and> loads_locked False (issued s (snd (fme_clear_store (Some val) count s)))
   \<and> loads_locked False (issued s (snd (pcie0_errors_store (Some val) count s)))
   \<and> loads_locked False (issued s (snd (pcie1_errors_store (Some val) count s)))
   \<and> loads_locked False (issued s (snd (inject_error_store (Some v) count s)))"
proof -
  have port: "issued s (snd (port_errors_show s)) = [Lock, Readq (port_reg PORT_ERROR), Unlock]"
    "issued s (snd (port_first_error_show s)) = [Lock, Readq (port_reg PORT_FIRST_ERROR), Unlock]"
    "issued s (snd (first_malformed_req_show s)) =
       [Lock, Readq (port_reg PORT_MALFORMED_REQ0), Readq (port_reg PORT_MALFORMED_REQ1), Unlock]"
    by (simp_all add: port_errors_show_def port_first_error_show_def first_malformed_req_show_def
        readq_def mutex_lock_def mutex_unlock_def port_reg_def issued_def Let_def)
  have fme: "issued s (snd (fme_errors_show s)) = [Readq (fme_reg FME_ERROR)]"
    "issued s (snd (fme_first_error_show s)) = [Readq (fme_reg FME_FIRST_ERROR)]"
    "issued s (snd (fme_next_error_show s)) = [Readq (fme_reg FME_NEXT_ERROR)]"
    "issued s (snd (pcie0_errors_show s)) = [Readq (fme_reg PCIE0_ERROR)]"
    "issued s (snd (pcie1_errors_show s)) = [Readq (fme_reg PCIE1_ERROR)]"
    "issued s (snd (nonfatal_errors_show s)) = [Readq (fme_reg RAS_NONFAT_ERROR)]"
    "issued s (snd (catfatal_errors_show s)) = [Readq (fme_reg RAS_CATFAT_ERROR)]"
    "issued s (snd (inject_error_show s)) = [Readq (fme_reg RAS_ERROR_INJECT)]"
    by (simp_all add: fme_errors_show_def fme_first_error_show_def fme_next_error_show_def
        pcie0_errors_show_def pcie1_errors_show_def nonfatal_errors_show_def
        catfatal_errors_show_def inject_error_show_def
        readq_def fme_reg_def issued_def Let_def)
  have stores: "loads_locked False (issued s (snd (fme_clear_store (Some val) count s)))"
    "loads_locked False (issued s (snd (pcie0_errors_store (Some val) count s)))"
    "loads_locked False (issued s (snd (pcie1_errors_store (Some val) count s)))"
    "loads_locked False (issued s (snd (inject_error_store (Some v) count s)))"
    by (simp_all add: fme_clear_store_eq pcie0_errors_store_eq pcie1_errors_store_eq
        inject_error_store_eq)
  show ?thesis
    by (simp add: port fme stores)
qed

end
